theory Spec2Isabelle
  imports
    Main
    "HOL-Library.Multiset"
    "HOL-Library.AList"
    "HOL-Library.Char_ord"
    "HOL-Library.List_Lexorder"
begin

section \<open>The tables of app\_futebol.py\<close>

text \<open>
  The three SQLAlchemy models become records, a table becomes the list of its rows in
  insertion order. Python integers are \<open>int\<close>; a nullable column is an \<open>option\<close>
  (\<open>None\<close> is SQL NULL). Strings are lists of code points below 256. A table
  row holds 64-bit integers, as an SQLite INTEGER column does, and requests are served
  one at a time.
\<close>

record jogador =
  jog_id :: int
  nome :: string
  goleiro :: "bool option"

record date =
  year :: int
  month :: int
  day :: int

record partida =
  par_id :: int
  data :: date

record estatistica =
  est_id :: int
  partida_id :: int
  jogador_id :: int
  gols :: "int option"
  assistencias :: "int option"
  vitorias :: "int option"
  empates :: "int option"
  sem_gol :: "int option"

record db =
  jogadores :: "jogador list"
  partidas :: "partida list"
  estatisticas :: "estatistica list"

definition empty_db :: db where
  "empty_db = \<lparr>jogadores = [], partidas = [], estatisticas = []\<rparr>"

section \<open>Estatistica.pontos\_dia\<close>

definition or_zero :: "int option \<Rightarrow> int" where
  \<comment> \<open>Python's \<open>x or 0\<close> on a nullable integer: \<open>x\<close> when it is truthy, else \<open>0\<close>.\<close>
  "or_zero x = (case x of None \<Rightarrow> 0 | Some v \<Rightarrow> if v \<noteq> 0 then v else 0)"

definition is_goleiro :: "jogador option \<Rightarrow> bool" where
  \<comment> \<open>The truth value of \<open>self.jogador and self.jogador.goleiro\<close>: a model object is
      truthy, \<open>None\<close> and \<open>False\<close> are not.\<close>
  "is_goleiro j = (case j of None \<Rightarrow> False | Some p \<Rightarrow> goleiro p = Some True)"

definition pontos_dia :: "jogador option \<Rightarrow> estatistica \<Rightarrow> int" where
  \<comment> \<open>The first argument is the relationship \<open>self.jogador\<close>, already resolved.\<close>
  "pontos_dia j self =
     (if is_goleiro j then
        2 * (or_zero (sem_gol self) + or_zero (vitorias self)
             + or_zero (assistencias self) + or_zero (gols self))
      else
        2 * or_zero (gols self) + 2 * or_zero (assistencias self)
        + 2 * or_zero (vitorias self) + 1 * or_zero (empates self))"

definition counter :: "int option \<Rightarrow> int" where
  \<comment> \<open>The value the specification gives a counter: an absent one counts as 0.\<close>
  "counter x = (case x of None \<Rightarrow> 0 | Some v \<Rightarrow> v)"

section \<open>Python built-ins the views call\<close>

datatype error = ValueError | OverflowError

definition raising :: "error + 'a \<Rightarrow> ('a \<Rightarrow> error + 'b) \<Rightarrow> error + 'b" where
  \<comment> \<open>Sequencing: an exception of the first computation ends the whole.\<close>
  "raising m f = (case m of Inl e \<Rightarrow> Inl e | Inr x \<Rightarrow> f x)"

definition is_space :: "char \<Rightarrow> bool" where
  \<comment> \<open>What \<open>int()\<close> skips around a number: the C whitespace characters and, once a
      non-ASCII string is transliterated, the Unicode spaces U+0085 and U+00A0.\<close>
  "is_space c = (of_char c \<in> set [9, 10, 11, 12, 13, 32, 133, 160 :: nat])"

definition is_digit :: "char \<Rightarrow> bool" where
  "is_digit c = (48 \<le> (of_char c :: nat) \<and> (of_char c :: nat) \<le> 57)"

definition digit_val :: "char \<Rightarrow> int" where
  "digit_val c = int (of_char c) - 48"

definition strip :: "string \<Rightarrow> string" where
  "strip s = rev (dropWhile is_space (rev (dropWhile is_space s)))"

fun digits_ok :: "string \<Rightarrow> bool" where
  \<comment> \<open>A digit, then digits each preceded by at most one underscore.\<close>
  "digits_ok [] = False"
| "digits_ok [c] = is_digit c"
| "digits_ok (c # d # cs) =
     (is_digit c \<and> (if d = CHR ''_'' then digits_ok cs else digits_ok (d # cs)))"

definition py_int :: "nat \<Rightarrow> string \<Rightarrow> error + int" where
  \<comment> \<open>\<open>int(s)\<close> on a string, base 10. \<open>lim\<close> is the interpreter's
      \<open>sys.get_int_max_str_digits()\<close>: 0 switches the limit off, and it only applies
      above 640 digits.\<close>
  "py_int lim s =
     (let t = strip s;
          neg = (case t of [] \<Rightarrow> False | c # _ \<Rightarrow> c = CHR ''-'');
          body = (case t of [] \<Rightarrow> t
                  | c # r \<Rightarrow> if c = CHR ''+'' \<or> c = CHR ''-'' then r else t);
          ds = filter is_digit body
      in if \<not> digits_ok body then Inl ValueError
         else if 640 < length ds \<and> 0 < lim \<and> lim < length ds then Inl ValueError
         else Inr ((if neg then - 1 else 1) * foldl (\<lambda>a c. 10 * a + digit_val c) 0 ds))"

fun split_acc :: "char \<Rightarrow> string \<Rightarrow> string \<Rightarrow> string list" where
  "split_acc sep cur [] = [rev cur]"
| "split_acc sep cur (c # cs) =
     (if c = sep then rev cur # split_acc sep [] cs else split_acc sep (c # cur) cs)"

definition split :: "string \<Rightarrow> char \<Rightarrow> string list" where
  \<comment> \<open>\<open>s.split(sep)\<close> with a one-character separator.\<close>
  "split s sep = split_acc sep [] s"

definition fits_c_int :: "int \<Rightarrow> bool" where
  "fits_c_int n = (- (2 ^ 31) \<le> n \<and> n < 2 ^ 31)"

definition is_leap :: "int \<Rightarrow> bool" where
  "is_leap y = (y mod 4 = 0 \<and> (y mod 100 \<noteq> 0 \<or> y mod 400 = 0))"

definition days_in_month :: "int \<Rightarrow> int \<Rightarrow> int" where
  \<comment> \<open>Only called with \<open>1 \<le> m \<le> 12\<close>.\<close>
  "days_in_month y m =
     (if m = 2 \<and> is_leap y then 29
      else [0, 31, 28, 31, 30, 31, 30, 31, 31, 30, 31, 30, 31] ! nat m)"

definition mk_date :: "int \<Rightarrow> int \<Rightarrow> int \<Rightarrow> error + date" where
  \<comment> \<open>\<open>datetime.date(y, m, d)\<close>: the arguments are converted to C ints first
      (OverflowError), then checked against the calendar (ValueError).\<close>
  "mk_date y m d =
     (if \<not> (fits_c_int y \<and> fits_c_int m \<and> fits_c_int d) then Inl OverflowError
      else if y < 1 \<or> 9999 < y then Inl ValueError
      else if m < 1 \<or> 12 < m then Inl ValueError
      else if d < 1 \<or> days_in_month y m < d then Inl ValueError
      else Inr \<lparr>year = y, month = m, day = d\<rparr>)"

function str_nat :: "nat \<Rightarrow> string" where
  "str_nat n =
     (if n < 10 then [char_of (48 + n)]
      else str_nat (n div 10) @ [char_of (48 + n mod 10)])"
  by pat_completeness auto
termination
  by (relation "measure id") auto

declare str_nat.simps [simp del]

definition str_int :: "int \<Rightarrow> string" where
  \<comment> \<open>\<open>str(i)\<close>, as the f-string \<open>f'j{jogador.id}_'\<close> formats the id.\<close>
  "str_int i = (if i < 0 then CHR ''-'' # str_nat (nat (- i)) else str_nat (nat i))"

definition zfill :: "nat \<Rightarrow> string \<Rightarrow> string" where
  "zfill n s = replicate (n - length s) CHR ''0'' @ s"

definition isoformat :: "date \<Rightarrow> string" where
  \<comment> \<open>\<open>"%04d-%02d-%02d"\<close> of a valid date.\<close>
  "isoformat d =
     zfill 4 (str_int (year d)) @ ''-'' @ zfill 2 (str_int (month d))
     @ ''-'' @ zfill 2 (str_int (day d))"

definition sort_reverse :: "('a \<Rightarrow> int) \<Rightarrow> 'a list \<Rightarrow> 'a list" where
  \<comment> \<open>\<open>xs.sort(key=key, reverse=True)\<close>: the list is reversed, sorted by a stable
      sort in ascending order, and reversed again.\<close>
  "sort_reverse key xs = rev (sort_key key (rev xs))"

section \<open>Requests and responses\<close>

datatype http_method = GET | POST

text \<open>
  A request carries what the views read from Flask's \<open>request\<close>: the method, the
  query parameter \<open>data\<close> (\<open>request.args.get('data')\<close>), the form fields in the
  order they were sent (\<open>request.form.get\<close> returns the first value of a key) and the
  value \<open>date.today()\<close> returns while the request is served.
\<close>

record request =
  req_method :: http_method
  args_data :: "string option"
  form :: "(string \<times> string) list"
  today :: date

record ranking_entry =
  r_jogador :: jogador
  r_gols :: int
  r_assistencias :: int
  r_vitorias :: int
  r_empates :: int
  r_sem_gol :: int
  r_pontos :: int

record index_view =
  v_partida :: partida
  v_goleiros :: "jogador list"
  v_jogadores_linha :: "jogador list"
  v_estat_por_jogador :: "(int \<times> estatistica option) list"
  v_ranking :: "ranking_entry list"

datatype response =
    RenderIndex index_view
  | RedirectIndex string
  | RenderJogadores "jogador list"
  | RedirectJogadores

section \<open>The view index\<close>

definition next_id :: "int list \<Rightarrow> int" where
  \<comment> \<open>The key SQLite gives a new row of an INTEGER PRIMARY KEY table: one more than
      the largest key in use, 1 in an empty table.\<close>
  "next_id ids = fold max ids 0 + 1"

definition data_da_requisicao :: "nat \<Rightarrow> request \<Rightarrow> error + date" where
  \<comment> \<open>Lines 87 to 92. Unpacking \<open>map(int, ...)\<close> into three names raises ValueError
      for any number of parts other than three, as a failing \<open>int\<close> does.\<close>
  "data_da_requisicao lim req =
     (case args_data req of
        None \<Rightarrow> Inr (today req)
      | Some data_str \<Rightarrow>
          if data_str \<noteq> [] then
            (case split data_str CHR ''-'' of
               [a, b, c] \<Rightarrow>
                 raising (py_int lim a) (\<lambda>ano.
                 raising (py_int lim b) (\<lambda>mes.
                 raising (py_int lim c) (\<lambda>dia.
                 mk_date ano mes dia)))
             | _ \<Rightarrow> Inl ValueError)
          else Inr (today req))"

definition garante_partida :: "date \<Rightarrow> db \<Rightarrow> partida \<times> db" where
  \<comment> \<open>Lines 94 to 99: the Partida of the date, inserted and committed when the query
      finds none.\<close>
  "garante_partida data_partida s =
     (case find (\<lambda>p. data p = data_partida) (partidas s) of
        Some p \<Rightarrow> (p, s)
      | None \<Rightarrow>
          (let p = \<lparr>par_id = next_id (map par_id (partidas s)), data = data_partida\<rparr>
           in (p, s\<lparr>partidas := partidas s @ [p]\<rparr>)))"

definition todos_jogadores :: "db \<Rightarrow> jogador list" where
  \<comment> \<open>\<open>Jogador.query.order_by(Jogador.nome).all()\<close>; rows of equal name in table order.\<close>
  "todos_jogadores s = sort_key nome (jogadores s)"

definition get_int :: "nat \<Rightarrow> (string \<times> string) list \<Rightarrow> string \<Rightarrow> string \<Rightarrow> error + int" where
  \<comment> \<open>Lines 111 to 116. Only ValueError is caught.\<close>
  "get_int lim frm prefix nome_campo =
     (let val = (case map_of frm (prefix @ nome_campo) of None \<Rightarrow> ''0'' | Some v \<Rightarrow> v)
      in case py_int lim val of
           Inr n \<Rightarrow> Inr n
         | Inl ValueError \<Rightarrow> Inr 0
         | Inl e \<Rightarrow> Inl e)"

definition fits_sqlite_int :: "int \<Rightarrow> bool" where
  \<comment> \<open>The columns are SQLite INTEGERs: signed, 64 bits.\<close>
  "fits_sqlite_int n = (- (2 ^ 63) \<le> n \<and> n < 2 ^ 63)"

definition grava :: "int \<Rightarrow> int \<Rightarrow> int \<Rightarrow> int \<Rightarrow> int \<Rightarrow> int \<Rightarrow> int \<Rightarrow> db \<Rightarrow> error + db" where
  \<comment> \<open>Lines 124 to 140 and the flush of the row: the first row of the pair is updated
      through its primary key, or a new row is added. When the row is sent to the
      database (by the autoflush of the next query, or by the commit of line 142) an
      integer outside the column's range raises OverflowError, which ends the request.\<close>
  "grava pid jid g a v e sg s =
     (if \<not> (fits_sqlite_int g \<and> fits_sqlite_int a \<and> fits_sqlite_int v
             \<and> fits_sqlite_int e \<and> fits_sqlite_int sg)
      then Inl OverflowError
      else Inr
        (case find (\<lambda>x. partida_id x = pid \<and> jogador_id x = jid) (estatisticas s) of
           None \<Rightarrow>
             s\<lparr>estatisticas := estatisticas s @
                 [\<lparr>est_id = next_id (map est_id (estatisticas s)),
                   partida_id = pid, jogador_id = jid,
                   gols = Some g, assistencias = Some a, vitorias = Some v,
                   empates = Some e, sem_gol = Some sg\<rparr>]\<rparr>
         | Some estat \<Rightarrow>
             s\<lparr>estatisticas :=
                 map (\<lambda>x. if est_id x = est_id estat
                           then x\<lparr>gols := Some g, assistencias := Some a, vitorias := Some v,
                                  empates := Some e, sem_gol := Some sg\<rparr>
                           else x)
                     (estatisticas s)\<rparr>))"

definition salva_jogador ::
    "nat \<Rightarrow> (string \<times> string) list \<Rightarrow> partida \<Rightarrow> jogador \<Rightarrow> db \<Rightarrow> error + db" where
  \<comment> \<open>One round of the loop of lines 108 to 140.\<close>
  "salva_jogador lim frm partida jogador s =
     (let prefix = ''j'' @ str_int (jog_id jogador) @ ''_'' in
      raising (get_int lim frm prefix ''gols'') (\<lambda>gols_v.
      raising (get_int lim frm prefix ''assistencias'') (\<lambda>assist.
      raising (get_int lim frm prefix ''vitorias'') (\<lambda>vits.
      raising (get_int lim frm prefix ''empates'') (\<lambda>emp.
      raising (get_int lim frm prefix ''sem_gol'') (\<lambda>sem_gol_v.
      grava (par_id partida) (jog_id jogador)
        gols_v assist vits emp sem_gol_v s))))))"

fun salva_todos ::
    "nat \<Rightarrow> (string \<times> string) list \<Rightarrow> partida \<Rightarrow> jogador list \<Rightarrow> db \<Rightarrow> error + db" where
  "salva_todos lim frm partida [] s = Inr s"
| "salva_todos lim frm partida (j # js) s =
     (case salva_jogador lim frm partida j s of
        Inl e \<Rightarrow> Inl e
      | Inr s' \<Rightarrow> salva_todos lim frm partida js s')"

definition estatisticas_de :: "db \<Rightarrow> jogador \<Rightarrow> estatistica list" where
  \<comment> \<open>The backref \<open>jogador.estatisticas\<close>.\<close>
  "estatisticas_de s j = filter (\<lambda>e. jogador_id e = jog_id j) (estatisticas s)"

definition jogador_de :: "db \<Rightarrow> estatistica \<Rightarrow> jogador option" where
  \<comment> \<open>The relationship \<open>est.jogador\<close>, loaded through the foreign key.\<close>
  "jogador_de s e = find (\<lambda>j. jog_id j = jogador_id e) (jogadores s)"

definition pontos_de :: "db \<Rightarrow> estatistica \<Rightarrow> int" where
  \<comment> \<open>The property \<open>est.pontos_dia\<close> of a stored row.\<close>
  "pontos_de s e = pontos_dia (jogador_de s e) e"

definition acumula :: "db \<Rightarrow> estatistica \<Rightarrow> ranking_entry \<Rightarrow> ranking_entry" where
  \<comment> \<open>The body of the loop of lines 164 to 170.\<close>
  "acumula s est r =
     r\<lparr>r_gols := r_gols r + or_zero (gols est),
       r_assistencias := r_assistencias r + or_zero (assistencias est),
       r_vitorias := r_vitorias r + or_zero (vitorias est),
       r_empates := r_empates r + or_zero (empates est),
       r_sem_gol := r_sem_gol r + or_zero (sem_gol est),
       r_pontos := r_pontos r + pontos_de s est\<rparr>"

definition entrada :: "db \<Rightarrow> jogador \<Rightarrow> ranking_entry" where
  \<comment> \<open>Lines 157 to 180: the totals of one player.\<close>
  "entrada s j =
     fold (acumula s) (estatisticas_de s j)
       \<lparr>r_jogador = j, r_gols = 0, r_assistencias = 0, r_vitorias = 0,
        r_empates = 0, r_sem_gol = 0, r_pontos = 0\<rparr>"

definition ranking :: "db \<Rightarrow> jogador list \<Rightarrow> ranking_entry list" where
  \<comment> \<open>Lines 155 to 182.\<close>
  "ranking s js = sort_reverse r_pontos (map (entrada s) js)"

definition estat_do_dia :: "db \<Rightarrow> partida \<Rightarrow> jogador \<Rightarrow> estatistica option" where
  "estat_do_dia s partida j =
     find (\<lambda>x. partida_id x = par_id partida \<and> jogador_id x = jog_id j) (estatisticas s)"

definition index :: "nat \<Rightarrow> request \<Rightarrow> db \<Rightarrow> (error + response) \<times> db" where
  \<comment> \<open>The view and the database it leaves. An exception before the commit of line 142
      leaves the statistics as they were.\<close>
  "index lim req s =
     (case data_da_requisicao lim req of
        Inl e \<Rightarrow> (Inl e, s)
      | Inr data_partida \<Rightarrow>
          (let (partida, s1) = garante_partida data_partida s;
               js = todos_jogadores s1;
               goleiros = filter (\<lambda>j. goleiro j = Some True) js;
               jogadores_linha = filter (\<lambda>j. goleiro j \<noteq> Some True) js
           in if req_method req = POST then
                (case salva_todos lim (form req) partida js s1 of
                   Inl e \<Rightarrow> (Inl e, s1)
                 | Inr s2 \<Rightarrow> (Inr (RedirectIndex (isoformat data_partida)), s2))
              else
                (Inr (RenderIndex
                   \<lparr>v_partida = partida,
                    v_goleiros = goleiros,
                    v_jogadores_linha = jogadores_linha,
                    v_estat_por_jogador =
                      fold (\<lambda>j m. AList.update (jog_id j) (estat_do_dia s1 partida j) m) js [],
                    v_ranking = ranking s1 js\<rparr>), s1)))"

section \<open>The view jogadores\_view\<close>

definition jogadores_view :: "request \<Rightarrow> db \<Rightarrow> response \<times> db" where
  "jogadores_view req s =
     (if req_method req = POST then
        (let nome_v = map_of (form req) ''nome'';
             goleiro_v = (case map_of (form req) ''goleiro'' of
                            None \<Rightarrow> False | Some v \<Rightarrow> v \<noteq> [])
         in case nome_v of
              None \<Rightarrow> (RedirectJogadores, s)
            | Some n \<Rightarrow>
                if n \<noteq> [] then
                  (RedirectJogadores,
                   s\<lparr>jogadores := jogadores s @
                       [\<lparr>jog_id = next_id (map jog_id (jogadores s)),
                         nome = n, goleiro = Some goleiro_v\<rparr>]\<rparr>)
                else (RedirectJogadores, s))
      else (RenderJogadores (todos_jogadores s), s))"

section \<open>Sequences of requests\<close>

datatype chamada = Index request | Jogadores request

definition atende :: "nat \<Rightarrow> chamada \<Rightarrow> db \<Rightarrow> db" where
  \<comment> \<open>The database after one request is served.\<close>
  "atende lim c s =
     (case c of Index req \<Rightarrow> snd (index lim req s)
              | Jogadores req \<Rightarrow> snd (jogadores_view req s))"

definition run :: "nat \<Rightarrow> chamada list \<Rightarrow> db \<Rightarrow> db" where
  \<comment> \<open>Requests are served one after the other.\<close>
  "run lim cs s = fold (atende lim) cs s"

section \<open>Notions the properties are stated with\<close>

definition valor_campo :: "nat \<Rightarrow> (string \<times> string) list \<Rightarrow> string \<Rightarrow> int" where
  \<comment> \<open>The counter a form field stands for: what \<open>int\<close> reads from its text, and 0 when
      the field is missing or its text is no integer.\<close>
  "valor_campo lim frm chave =
     (case map_of frm chave of
        None \<Rightarrow> 0
      | Some t \<Rightarrow> (case py_int lim t of Inl _ \<Rightarrow> 0 | Inr n \<Rightarrow> n))"

definition chave :: "jogador \<Rightarrow> string \<Rightarrow> string" where
  \<comment> \<open>The name of a player's form field.\<close>
  "chave j campo = (''j'' @ str_int (jog_id j) @ ''_'') @ campo"

definition grava_linha :: "int \<Rightarrow> int \<Rightarrow> int \<Rightarrow> int \<Rightarrow> int \<Rightarrow> int \<Rightarrow> int \<Rightarrow> db \<Rightarrow> db" where
  \<comment> \<open>The database \<open>grava\<close> returns when the five integers fit their columns.\<close>
  "grava_linha pid jid g a v e sg s =
     (case find (\<lambda>x. partida_id x = pid \<and> jogador_id x = jid) (estatisticas s) of
        None \<Rightarrow>
          s\<lparr>estatisticas := estatisticas s @
              [\<lparr>est_id = next_id (map est_id (estatisticas s)),
                partida_id = pid, jogador_id = jid,
                gols = Some g, assistencias = Some a, vitorias = Some v,
                empates = Some e, sem_gol = Some sg\<rparr>]\<rparr>
      | Some estat \<Rightarrow>
          s\<lparr>estatisticas :=
              map (\<lambda>x. if est_id x = est_id estat
                        then x\<lparr>gols := Some g, assistencias := Some a, vitorias := Some v,
                               empates := Some e, sem_gol := Some sg\<rparr>
                        else x)
                  (estatisticas s)\<rparr>)"

definition campos :: "string list" where
  \<comment> \<open>The five counters a form has for each player.\<close>
  "campos = [''gols'', ''assistencias'', ''vitorias'', ''empates'', ''sem_gol'']"

definition coluna :: "string \<Rightarrow> estatistica \<Rightarrow> int option" where
  \<comment> \<open>The column a form field of that name is stored in.\<close>
  "coluna campo x =
     (if campo = ''gols'' then gols x
      else if campo = ''assistencias'' then assistencias x
      else if campo = ''vitorias'' then vitorias x
      else if campo = ''empates'' then empates x
      else sem_gol x)"

definition cabem :: "nat \<Rightarrow> (string \<times> string) list \<Rightarrow> jogador \<Rightarrow> bool" where
  \<comment> \<open>The five counters the form has for the player fit the database's columns.\<close>
  "cabem lim frm j =
     list_all (\<lambda>campo. fits_sqlite_int (valor_campo lim frm (chave j campo))) campos"

definition grava_form :: "nat \<Rightarrow> (string \<times> string) list \<Rightarrow> partida \<Rightarrow> jogador \<Rightarrow> db \<Rightarrow> db" where
  \<comment> \<open>The database after a player's round of the loop, when the counters fit.\<close>
  "grava_form lim frm partida j s =
     grava_linha (par_id partida) (jog_id j)
       (valor_campo lim frm (chave j ''gols''))
       (valor_campo lim frm (chave j ''assistencias''))
       (valor_campo lim frm (chave j ''vitorias''))
       (valor_campo lim frm (chave j ''empates''))
       (valor_campo lim frm (chave j ''sem_gol'')) s"

definition tres_inteiros :: "nat \<Rightarrow> string \<Rightarrow> bool" where
  \<comment> \<open>Three dash-separated integers, as the specification words it.\<close>
  "tres_inteiros lim t =
     (case split t CHR ''-'' of
        [a, b, c] \<Rightarrow> \<not> isl (py_int lim a) \<and> \<not> isl (py_int lim b) \<and> \<not> isl (py_int lim c)
      | _ \<Rightarrow> False)"

definition data_valida :: "nat \<Rightarrow> string \<Rightarrow> bool" where
  \<comment> \<open>Three dash-separated integers that are a year from 1 to 9999, a month from 1 to
      12 and a day of that month.\<close>
  "data_valida lim t =
     (case split t CHR ''-'' of
        [a, b, c] \<Rightarrow>
          (case (py_int lim a, py_int lim b, py_int lim c) of
             (Inr y, Inr m, Inr d) \<Rightarrow>
               1 \<le> y \<and> y \<le> 9999 \<and> 1 \<le> m \<and> m \<le> 12 \<and> 1 \<le> d \<and> d \<le> days_in_month y m
           | _ \<Rightarrow> False)
      | _ \<Rightarrow> False)"

definition par :: "int \<Rightarrow> int \<Rightarrow> estatistica \<Rightarrow> bool" where
  \<comment> \<open>The row belongs to the match and the player.\<close>
  "par pid jid x = (partida_id x = pid \<and> jogador_id x = jid)"

definition chaves_unicas :: "db \<Rightarrow> bool" where
  \<comment> \<open>Primary keys are unique, and no match has two rows of one player.\<close>
  "chaves_unicas s =
     (distinct (map jog_id (jogadores s))
      \<and> distinct (map est_id (estatisticas s))
      \<and> distinct (map (\<lambda>x. (partida_id x, jogador_id x)) (estatisticas s)))"

definition contadores_de :: "nat \<Rightarrow> (string \<times> string) list \<Rightarrow> jogador \<Rightarrow> estatistica \<Rightarrow> bool" where
  \<comment> \<open>The five counters of the row are the values of the player's form fields.\<close>
  "contadores_de lim frm j x =
     (gols x = Some (valor_campo lim frm (chave j ''gols''))
      \<and> assistencias x = Some (valor_campo lim frm (chave j ''assistencias''))
      \<and> vitorias x = Some (valor_campo lim frm (chave j ''vitorias''))
      \<and> empates x = Some (valor_campo lim frm (chave j ''empates''))
      \<and> sem_gol x = Some (valor_campo lim frm (chave j ''sem_gol'')))"

definition contadores_nao_negativos :: "estatistica \<Rightarrow> bool" where
  \<comment> \<open>No counter of the row is negative, a NULL counting 0.\<close>
  "contadores_nao_negativos x =
     (0 \<le> counter (gols x) \<and> 0 \<le> counter (assistencias x) \<and> 0 \<le> counter (vitorias x)
      \<and> 0 \<le> counter (empates x) \<and> 0 \<le> counter (sem_gol x))"

definition texto_nao_negativo :: "nat \<Rightarrow> string \<Rightarrow> bool" where
  \<comment> \<open>The text is no integer, or an integer that is not negative.\<close>
  "texto_nao_negativo lim t = (case py_int lim t of Inl _ \<Rightarrow> True | Inr n \<Rightarrow> 0 \<le> n)"

definition campos_nao_negativos :: "nat \<Rightarrow> chamada \<Rightarrow> bool" where
  \<comment> \<open>No field of a form sent to the index view reads as a negative integer.\<close>
  "campos_nao_negativos lim c =
     (case c of
        Index req \<Rightarrow> list_all (\<lambda>(k, t). texto_nao_negativo lim t) (form req)
      | Jogadores req \<Rightarrow> True)"

section \<open>A worked example\<close>

text \<open>
  Three players are registered, one of them a goalkeeper, and one form is posted for
  the match of 2024-01-15; the theorems below are instantiated on it.
\<close>

definition hoje :: date where
  "hoje = \<lparr>year = 2025, month = 3, day = 9\<rparr>"

definition ex_cadastro :: "chamada list" where
  "ex_cadastro =
     [Jogadores \<lparr>req_method = POST, args_data = None,
                 form = [(''nome'', ''Ze''), (''goleiro'', ''on'')], today = hoje\<rparr>,
      Jogadores \<lparr>req_method = POST, args_data = None,
                 form = [(''nome'', ''Ana'')], today = hoje\<rparr>,
      Jogadores \<lparr>req_method = POST, args_data = None,
                 form = [(''nome'', ''Bia'')], today = hoje\<rparr>]"

definition ex_post :: request where
  "ex_post =
     \<lparr>req_method = POST, args_data = Some ''2024-01-15'',
      form = [(''j1_sem_gol'', ''3''), (''j1_vitorias'', ''2''),
              (''j2_gols'', ''2''), (''j2_assistencias'', ''1''),
              (''j2_vitorias'', ''1''), (''j2_empates'', ''1''),
              (''j3_gols'', ''abc''), (''j3_vitorias'', ''4''), (''j3_empates'', '' 1 '')],
      today = hoje\<rparr>"

definition ex_get :: request where
  "ex_get = \<lparr>req_method = GET, args_data = None, form = [], today = hoje\<rparr>"

definition ex_db :: db where
  "ex_db = run 0 (ex_cadastro @ [Index ex_post]) empty_db"

definition ex_jogadores :: "jogador list" where
  "ex_jogadores =
     [\<lparr>jog_id = 1, nome = ''Ze'', goleiro = Some True\<rparr>,
      \<lparr>jog_id = 2, nome = ''Ana'', goleiro = Some False\<rparr>,
      \<lparr>jog_id = 3, nome = ''Bia'', goleiro = Some False\<rparr>]"

definition ex_estatisticas :: "estatistica list" where
  "ex_estatisticas =
     [\<lparr>est_id = 1, partida_id = 1, jogador_id = 2, gols = Some 2,
       assistencias = Some 1, vitorias = Some 1, empates = Some 1, sem_gol = Some 0\<rparr>,
      \<lparr>est_id = 2, partida_id = 1, jogador_id = 3, gols = Some 0,
       assistencias = Some 0, vitorias = Some 4, empates = Some 1, sem_gol = Some 0\<rparr>,
      \<lparr>est_id = 3, partida_id = 1, jogador_id = 1, gols = Some 0,
       assistencias = Some 0, vitorias = Some 2, empates = Some 0, sem_gol = Some 3\<rparr>]"

definition ex_db2 :: db where
  "ex_db2 =
     \<lparr>jogadores = ex_jogadores,
      partidas = [\<lparr>par_id = 1, data = \<lparr>year = 2024, month = 1, day = 15\<rparr>\<rparr>,
                  \<lparr>par_id = 2, data = hoje\<rparr>],
      estatisticas = ex_estatisticas\<rparr>"

definition ex_view :: index_view where
  "ex_view =
     \<lparr>v_partida = \<lparr>par_id = 2, data = hoje\<rparr>,
      v_goleiros = [\<lparr>jog_id = 1, nome = ''Ze'', goleiro = Some True\<rparr>],
      v_jogadores_linha =
        [\<lparr>jog_id = 2, nome = ''Ana'', goleiro = Some False\<rparr>,
         \<lparr>jog_id = 3, nome = ''Bia'', goleiro = Some False\<rparr>],
      v_estat_por_jogador = [(2, None), (3, None), (1, None)],
      v_ranking =
        [\<lparr>r_jogador = \<lparr>jog_id = 1, nome = ''Ze'', goleiro = Some True\<rparr>,
          r_gols = 0, r_assistencias = 0, r_vitorias = 2,
          r_empates = 0, r_sem_gol = 3, r_pontos = 10\<rparr>,
         \<lparr>r_jogador = \<lparr>jog_id = 2, nome = ''Ana'', goleiro = Some False\<rparr>,
          r_gols = 2, r_assistencias = 1, r_vitorias = 1,
          r_empates = 1, r_sem_gol = 0, r_pontos = 9\<rparr>,
         \<lparr>r_jogador = \<lparr>jog_id = 3, nome = ''Bia'', goleiro = Some False\<rparr>,
          r_gols = 0, r_assistencias = 0, r_vitorias = 4,
          r_empates = 1, r_sem_gol = 0, r_pontos = 9\<rparr>]\<rparr>"

definition ex_estouro :: request where
  "ex_estouro =
     \<lparr>req_method = POST, args_data = Some ''2024-01-15'',
      form = [(''j1_gols'', ''9223372036854775808'')], today = hoje\<rparr>"

definition ex_abc_estouro :: request where
  "ex_abc_estouro =
     \<lparr>req_method = POST, args_data = Some ''2024-01-15'',
      form = [(''j1_gols'', ''abc''), (''j1_assistencias'', ''9223372036854775808'')],
      today = hoje\<rparr>"

definition ex_negativo :: "chamada list" where
  "ex_negativo =
     [Jogadores \<lparr>req_method = POST, args_data = None,
                 form = [(''nome'', ''Ze'')], today = hoje\<rparr>,
      Index \<lparr>req_method = POST, args_data = Some ''2024-01-15'',
             form = [(''j1_gols'', ''-5'')], today = hoje\<rparr>]"

section \<open>Properties of the scoring rule\<close>

lemma or_zero_counter: "or_zero x = counter x"
  by (simp add: or_zero_def counter_def split: option.split)

text \<open>
  Claim C1. For a statistic whose player is a goalkeeper the points are
  \<open>2 * (clean sheets + wins + assists + goals)\<close>, draws adding nothing; for a player
  whose flag is false (or NULL) they are \<open>2*goals + 2*assists + 2*wins + draws\<close>.
  An absent counter counts as 0. The function is total: it returns an integer for
  every record, also outside the non-negative counters the claim speaks of.
\<close>

theorem pontos_dia_formula:
  "pontos_dia (Some (p\<lparr>goleiro := Some True\<rparr>)) e
     = 2 * (counter (sem_gol e) + counter (vitorias e)
            + counter (assistencias e) + counter (gols e))
   \<and> pontos_dia (Some (p\<lparr>goleiro := Some False\<rparr>)) e
     = 2 * counter (gols e) + 2 * counter (assistencias e)
       + 2 * counter (vitorias e) + 1 * counter (empates e)
   \<and> pontos_dia (Some (p\<lparr>goleiro := None\<rparr>)) e
     = 2 * counter (gols e) + 2 * counter (assistencias e)
       + 2 * counter (vitorias e) + 1 * counter (empates e)"
  by (simp add: pontos_dia_def is_goleiro_def or_zero_counter)

theorem pontos_dia_formula_witness:
  "pontos_dia (Some \<lparr>jog_id = 1, nome = ''Ze'', goleiro = Some True\<rparr>)
     \<lparr>est_id = 3, partida_id = 1, jogador_id = 1, gols = Some 0, assistencias = Some 0,
      vitorias = Some 2, empates = Some 7, sem_gol = Some 3\<rparr> = 10
   \<and> pontos_dia (Some \<lparr>jog_id = 2, nome = ''Ana'', goleiro = Some False\<rparr>)
     \<lparr>est_id = 1, partida_id = 1, jogador_id = 2, gols = Some 2, assistencias = Some 1,
      vitorias = Some 1, empates = Some 1, sem_gol = None\<rparr> = 9"
  using
    pontos_dia_formula [of "\<lparr>jog_id = 1, nome = ''Ze'', goleiro = Some True\<rparr>"
      "\<lparr>est_id = 3, partida_id = 1, jogador_id = 1, gols = Some 0, assistencias = Some 0,
        vitorias = Some 2, empates = Some 7, sem_gol = Some 3\<rparr>"]
    pontos_dia_formula [of "\<lparr>jog_id = 2, nome = ''Ana'', goleiro = Some False\<rparr>"
      "\<lparr>est_id = 1, partida_id = 1, jogador_id = 2, gols = Some 2, assistencias = Some 1,
        vitorias = Some 1, empates = Some 1, sem_gol = None\<rparr>"]
  by (simp add: counter_def)

text \<open>
  Claim C9. When the player relationship of a statistic is null, the points follow the
  field-player formula: draws count one point each and clean sheets are ignored.
\<close>

theorem pontos_dia_sem_jogador:
  "pontos_dia None e
     = 2 * counter (gols e) + 2 * counter (assistencias e)
       + 2 * counter (vitorias e) + 1 * counter (empates e)"
  by (simp add: pontos_dia_def is_goleiro_def or_zero_counter)

theorem pontos_dia_sem_jogador_witness:
  "pontos_dia None
     \<lparr>est_id = 1, partida_id = 1, jogador_id = 9, gols = Some 2, assistencias = Some 1,
      vitorias = Some 1, empates = Some 1, sem_gol = Some 5\<rparr> = 9"
  using
    pontos_dia_sem_jogador [of
      "\<lparr>est_id = 1, partida_id = 1, jogador_id = 9, gols = Some 2, assistencias = Some 1,
        vitorias = Some 1, empates = Some 1, sem_gol = Some 5\<rparr>"]
  by (simp add: counter_def)

section \<open>The ranking\<close>

lemma acumula_sel:
  "r_jogador (acumula s e r) = r_jogador r"
  "r_gols (acumula s e r) = r_gols r + counter (gols e)"
  "r_assistencias (acumula s e r) = r_assistencias r + counter (assistencias e)"
  "r_vitorias (acumula s e r) = r_vitorias r + counter (vitorias e)"
  "r_empates (acumula s e r) = r_empates r + counter (empates e)"
  "r_sem_gol (acumula s e r) = r_sem_gol r + counter (sem_gol e)"
  "r_pontos (acumula s e r) = r_pontos r + pontos_de s e"
  by (simp_all add: acumula_def or_zero_counter)

lemma fold_acumula_jogador: "r_jogador (fold (acumula s) es r) = r_jogador r"
  by (induction es arbitrary: r) (simp_all add: acumula_sel)

lemma fold_acumula_gols:
  "r_gols (fold (acumula s) es r) = r_gols r + (\<Sum>e\<leftarrow>es. counter (gols e))"
  by (induction es arbitrary: r) (simp_all add: acumula_sel)

lemma fold_acumula_assistencias:
  "r_assistencias (fold (acumula s) es r)
     = r_assistencias r + (\<Sum>e\<leftarrow>es. counter (assistencias e))"
  by (induction es arbitrary: r) (simp_all add: acumula_sel)

lemma fold_acumula_vitorias:
  "r_vitorias (fold (acumula s) es r) = r_vitorias r + (\<Sum>e\<leftarrow>es. counter (vitorias e))"
  by (induction es arbitrary: r) (simp_all add: acumula_sel)

lemma fold_acumula_empates:
  "r_empates (fold (acumula s) es r) = r_empates r + (\<Sum>e\<leftarrow>es. counter (empates e))"
  by (induction es arbitrary: r) (simp_all add: acumula_sel)

lemma fold_acumula_sem_gol:
  "r_sem_gol (fold (acumula s) es r) = r_sem_gol r + (\<Sum>e\<leftarrow>es. counter (sem_gol e))"
  by (induction es arbitrary: r) (simp_all add: acumula_sel)

lemma fold_acumula_pontos:
  "r_pontos (fold (acumula s) es r) = r_pontos r + (\<Sum>e\<leftarrow>es. pontos_de s e)"
  by (induction es arbitrary: r) (simp_all add: acumula_sel)

lemmas fold_acumula =
  fold_acumula_jogador fold_acumula_gols fold_acumula_assistencias fold_acumula_vitorias
  fold_acumula_empates fold_acumula_sem_gol fold_acumula_pontos

lemma entrada_fields:
  "r_jogador (entrada s j) = j"
  "r_gols (entrada s j) = (\<Sum>e\<leftarrow>estatisticas_de s j. counter (gols e))"
  "r_assistencias (entrada s j) = (\<Sum>e\<leftarrow>estatisticas_de s j. counter (assistencias e))"
  "r_vitorias (entrada s j) = (\<Sum>e\<leftarrow>estatisticas_de s j. counter (vitorias e))"
  "r_empates (entrada s j) = (\<Sum>e\<leftarrow>estatisticas_de s j. counter (empates e))"
  "r_sem_gol (entrada s j) = (\<Sum>e\<leftarrow>estatisticas_de s j. counter (sem_gol e))"
  "r_pontos (entrada s j) = (\<Sum>e\<leftarrow>estatisticas_de s j. pontos_de s e)"
  by (simp_all add: entrada_def fold_acumula)

lemma set_sort_reverse: "set (sort_reverse f xs) = set xs"
  by (simp add: sort_reverse_def)

lemma mset_sort_reverse: "mset (sort_reverse f xs) = mset xs"
  by (simp add: sort_reverse_def)

lemma sorted_sort_reverse: "sorted_wrt (\<ge>) (map f (sort_reverse f xs))"
proof -
  have "sorted (map f (sort_key f (rev xs)))" by simp
  then have "sorted (rev (map f (sort_reverse f xs)))"
    by (simp add: sort_reverse_def rev_map)
  then show ?thesis
    by (simp add: sorted_wrt_rev)
qed

lemma filter_sort_reverse:
  "filter (\<lambda>x. f x = k) (sort_reverse f xs) = filter (\<lambda>x. f x = k) xs"
proof -
  have "filter (\<lambda>x. f x = k) (sort_key f (rev xs)) = filter (\<lambda>x. f x = k) (rev xs)"
    by (rule sort_key_stable)
  then show ?thesis
    by (simp add: sort_reverse_def rev_filter [symmetric])
qed

lemma sorted_wrt_ties:
  "(\<And>k. sorted_wrt Q (filter (\<lambda>x. f x = k) ys))
     \<Longrightarrow> sorted_wrt (\<lambda>x y. f x = f y \<longrightarrow> Q x y) ys"
proof (induction ys)
  case Nil
  show ?case by simp
next
  case (Cons y ys)
  have tl: "sorted_wrt Q (filter (\<lambda>x. f x = k) ys)" for k
    using Cons.prems [of k] by (cases "f y = k") simp_all
  have hd: "Q y z" if "z \<in> set ys" "f y = f z" for z
    using Cons.prems [of "f y"] that by simp
  show ?case
    using Cons.IH [OF tl] hd by simp
qed

lemma ex_db_value:
  "ex_db = \<lparr>jogadores = ex_jogadores,
            partidas = [\<lparr>par_id = 1, data = \<lparr>year = 2024, month = 1, day = 15\<rparr>\<rparr>],
            estatisticas = ex_estatisticas\<rparr>"
  by code_simp

lemma ex_index_get: "index 0 ex_get ex_db = (Inr (RenderIndex ex_view), ex_db2)"
  by code_simp

lemma garante_partida_outras:
  "jogadores (snd (garante_partida d s)) = jogadores s"
  "estatisticas (snd (garante_partida d s)) = estatisticas s"
  by (simp_all add: garante_partida_def Let_def split: option.split)

lemma index_render:
  assumes "index lim req s = (Inr (RenderIndex v), s')"
  shows "\<exists>d. data_da_requisicao lim req = Inr d
           \<and> s' = snd (garante_partida d s)
           \<and> v_partida v = fst (garante_partida d s)
           \<and> v_ranking v = ranking s' (todos_jogadores s')"
  using assms
  by (auto simp: index_def Let_def split: sum.splits prod.splits if_splits)

lemma find_distinct_key:
  "distinct (map f xs) \<Longrightarrow> x \<in> set xs \<Longrightarrow> find (\<lambda>y. f y = f x) xs = Some x"
  by (induction xs) auto

lemma map_entrada_jogador: "map r_jogador (map (entrada s) js) = js"
  by (induction js) (simp_all add: entrada_fields)

lemma map_entrada_nome: "map (\<lambda>x. nome (r_jogador x)) (map (entrada s) js) = map nome js"
  by (induction js) (simp_all add: entrada_fields)

lemma index_render_jogadores:
  assumes "index lim req s = (Inr (RenderIndex v), s')"
  shows "jogadores s' = jogadores s"
  using index_render [OF assms] by (auto simp: garante_partida_outras)

text \<open>
  Claim C3. When the index view renders, the ranking holds for every player of the
  roster an entry whose five totals are the sums of the player's counters over all of
  the player's statistic rows (an absent counter counting 0), and whose points are the
  sum of \<open>pontos_dia\<close> of those rows, computed with that player. The primary key of
  the players' table is unique.
\<close>

theorem index_ranking_totals:
  assumes "index lim req s = (Inr (RenderIndex v), s')"
    and "distinct (map jog_id (jogadores s))"
    and "j \<in> set (jogadores s')"
  shows "\<exists>r \<in> set (v_ranking v).
           r_jogador r = j
         \<and> r_gols r = (\<Sum>e\<leftarrow>filter (\<lambda>e. jogador_id e = jog_id j) (estatisticas s'). counter (gols e))
         \<and> r_assistencias r = (\<Sum>e\<leftarrow>filter (\<lambda>e. jogador_id e = jog_id j) (estatisticas s'). counter (assistencias e))
         \<and> r_vitorias r = (\<Sum>e\<leftarrow>filter (\<lambda>e. jogador_id e = jog_id j) (estatisticas s'). counter (vitorias e))
         \<and> r_empates r = (\<Sum>e\<leftarrow>filter (\<lambda>e. jogador_id e = jog_id j) (estatisticas s'). counter (empates e))
         \<and> r_sem_gol r = (\<Sum>e\<leftarrow>filter (\<lambda>e. jogador_id e = jog_id j) (estatisticas s'). counter (sem_gol e))
         \<and> r_pontos r = (\<Sum>e\<leftarrow>filter (\<lambda>e. jogador_id e = jog_id j) (estatisticas s'). pontos_dia (Some j) e)"
proof -
  from index_render [OF assms(1)]
  have rk: "v_ranking v = ranking s' (todos_jogadores s')" by blast
  have js: "jogadores s' = jogadores s"
    by (rule index_render_jogadores [OF assms(1)])
  have "pontos_de s' e = pontos_dia (Some j) e" if "jogador_id e = jog_id j" for e
    using find_distinct_key [of jog_id "jogadores s'" j] assms(2,3) that
    by (simp add: pontos_de_def jogador_de_def js)
  then have pts: "(\<Sum>e\<leftarrow>estatisticas_de s' j. pontos_de s' e)
               = (\<Sum>e\<leftarrow>estatisticas_de s' j. pontos_dia (Some j) e)"
    by (intro arg_cong [where f = sum_list] map_cong refl) (simp add: estatisticas_de_def)
  have "entrada s' j \<in> set (v_ranking v)"
    using assms(3) by (simp add: rk ranking_def set_sort_reverse todos_jogadores_def)
  moreover have "r_jogador (entrada s' j) = j"
    by (simp add: entrada_fields)
  ultimately show ?thesis
    using pts by (intro bexI [of _ "entrada s' j"]) (simp_all add: entrada_fields estatisticas_de_def)
qed

theorem index_ranking_totals_witness:
  "index 0 ex_get ex_db = (Inr (RenderIndex ex_view), ex_db2)
   \<and> distinct (map jog_id (jogadores ex_db))
   \<and> \<lparr>jog_id = 1, nome = ''Ze'', goleiro = Some True\<rparr> \<in> set (jogadores ex_db2)
   \<and> (\<exists>r \<in> set (v_ranking ex_view).
         r_jogador r = \<lparr>jog_id = 1, nome = ''Ze'', goleiro = Some True\<rparr>
       \<and> r_gols r = 0 \<and> r_assistencias r = 0 \<and> r_vitorias r = 2 \<and> r_empates r = 0
       \<and> r_sem_gol r = 3 \<and> r_pontos r = 10)"
proof -
  have h1: "index 0 ex_get ex_db = (Inr (RenderIndex ex_view), ex_db2)"
    by (rule ex_index_get)
  have h2: "distinct (map jog_id (jogadores ex_db))"
    by (simp add: ex_db_value ex_jogadores_def)
  have h3: "\<lparr>jog_id = 1, nome = ''Ze'', goleiro = Some True\<rparr> \<in> set (jogadores ex_db2)"
    by (simp add: ex_db2_def ex_jogadores_def)
  have "\<exists>r \<in> set (v_ranking ex_view).
         r_jogador r = \<lparr>jog_id = 1, nome = ''Ze'', goleiro = Some True\<rparr>
       \<and> r_gols r = 0 \<and> r_assistencias r = 0 \<and> r_vitorias r = 2 \<and> r_empates r = 0
       \<and> r_sem_gol r = 3 \<and> r_pontos r = 10"
    using index_ranking_totals [OF h1 h2 h3]
    by (simp add: ex_db2_def ex_estatisticas_def counter_def pontos_dia_def is_goleiro_def
          or_zero_def)
  with h1 h2 h3 show ?thesis by blast
qed

text \<open>
  Claim C4. The ranking the index view renders is in non-increasing order of points
  and lists the roster: the players of its entries are the players of the table, each
  as often as the table has it, so no entry is dropped or added.
\<close>

theorem index_ranking_sorted:
  assumes "index lim req s = (Inr (RenderIndex v), s')"
  shows "sorted_wrt (\<ge>) (map r_pontos (v_ranking v))
       \<and> mset (map r_jogador (v_ranking v)) = mset (jogadores s')
       \<and> length (v_ranking v) = length (jogadores s')"
proof -
  from index_render [OF assms]
  have rk: "v_ranking v = ranking s' (todos_jogadores s')" by blast
  have "mset (map r_jogador (v_ranking v))
          = mset (map r_jogador (map (entrada s') (todos_jogadores s')))"
    unfolding rk ranking_def by (simp only: mset_map mset_sort_reverse)
  also have "map r_jogador (map (entrada s') (todos_jogadores s')) = todos_jogadores s'"
    by (rule map_entrada_jogador)
  finally have m: "mset (map r_jogador (v_ranking v)) = mset (jogadores s')"
    by (simp add: todos_jogadores_def)
  have "length (v_ranking v) = length (jogadores s')"
    using m by (metis length_map size_mset)
  then show ?thesis
    using m by (simp add: rk ranking_def sorted_sort_reverse)
qed

theorem index_ranking_sorted_witness:
  "index 0 ex_get ex_db = (Inr (RenderIndex ex_view), ex_db2)
   \<and> map r_pontos (v_ranking ex_view) = [10, 9, 9]
   \<and> sorted_wrt (\<ge>) (map r_pontos (v_ranking ex_view))
   \<and> mset (map r_jogador (v_ranking ex_view)) = mset (jogadores ex_db2)
   \<and> length (v_ranking ex_view) = length (jogadores ex_db2)"
proof -
  have h1: "index 0 ex_get ex_db = (Inr (RenderIndex ex_view), ex_db2)"
    by (rule ex_index_get)
  have "map r_pontos (v_ranking ex_view) = [10, 9, 9]"
    by (simp add: ex_view_def)
  with index_ranking_sorted [OF h1] h1 show ?thesis by blast
qed

text \<open>
  Claim C10. In the ranking the index view renders, of two entries with equal points
  the earlier one has the smaller or equal name: ties are in ascending order of name.
\<close>

theorem index_ranking_ties_by_name:
  assumes "index lim req s = (Inr (RenderIndex v), s')"
  shows "sorted_wrt (\<lambda>x y. r_pontos x = r_pontos y \<longrightarrow> nome (r_jogador x) \<le> nome (r_jogador y))
           (v_ranking v)"
proof -
  from index_render [OF assms]
  have rk: "v_ranking v = ranking s' (todos_jogadores s')" by blast
  let ?es = "map (entrada s') (todos_jogadores s')"
  have "sorted (map nome (todos_jogadores s'))"
    by (simp add: todos_jogadores_def)
  then have srt: "sorted (map (\<lambda>x. nome (r_jogador x)) ?es)"
    by (simp only: map_entrada_nome)
  have "sorted_wrt (\<lambda>x y. nome (r_jogador x) \<le> nome (r_jogador y))
          (filter (\<lambda>x. r_pontos x = k) (v_ranking v))" for k
  proof -
    have "sorted (map (\<lambda>x. nome (r_jogador x)) (filter (\<lambda>x. r_pontos x = k) ?es))"
      using srt by (rule sorted_filter)
    then show ?thesis
      by (simp add: rk ranking_def filter_sort_reverse sorted_map)
  qed
  then show ?thesis
    by (rule sorted_wrt_ties)
qed

theorem index_ranking_ties_by_name_witness:
  "index 0 ex_get ex_db = (Inr (RenderIndex ex_view), ex_db2)
   \<and> map (\<lambda>x. (r_pontos x, nome (r_jogador x))) (v_ranking ex_view)
       = [(10, ''Ze''), (9, ''Ana''), (9, ''Bia'')]
   \<and> sorted_wrt (\<lambda>x y. r_pontos x = r_pontos y \<longrightarrow> nome (r_jogador x) \<le> nome (r_jogador y))
        (v_ranking ex_view)"
proof -
  have h1: "index 0 ex_get ex_db = (Inr (RenderIndex ex_view), ex_db2)"
    by (rule ex_index_get)
  have "map (\<lambda>x. (r_pontos x, nome (r_jogador x))) (v_ranking ex_view)
       = [(10, ''Ze''), (9, ''Ana''), (9, ''Bia'')]"
    by (simp add: ex_view_def)
  with index_ranking_ties_by_name [OF h1] h1 show ?thesis by blast
qed

section \<open>Form fields, the match of a date and the date parameter\<close>

lemma py_int_error: "py_int lim t = Inl e \<Longrightarrow> e = ValueError"
  by (auto simp: py_int_def Let_def split: if_splits)

lemma get_int_valor:
  "get_int lim frm prefix campo = Inr (valor_campo lim frm (prefix @ campo))"
proof (cases "map_of frm (prefix @ campo)")
  case None
  have "py_int lim ''0'' = Inr 0" by code_simp
  with None show ?thesis
    by (simp add: get_int_def valor_campo_def)
next
  case (Some t)
  show ?thesis
  proof (cases "py_int lim t")
    case (Inl e)
    with py_int_error [OF Inl] Some show ?thesis
      by (simp add: get_int_def valor_campo_def)
  next
    case (Inr n)
    with Some show ?thesis
      by (simp add: get_int_def valor_campo_def)
  qed
qed

lemma grava_eq:
  "grava pid jid g a v e sg s =
     (if fits_sqlite_int g \<and> fits_sqlite_int a \<and> fits_sqlite_int v
         \<and> fits_sqlite_int e \<and> fits_sqlite_int sg
      then Inr (grava_linha pid jid g a v e sg s) else Inl OverflowError)"
  by (simp add: grava_def grava_linha_def)

lemma salva_jogador_grava:
  "salva_jogador lim frm partida j s =
     (if cabem lim frm j then Inr (grava_form lim frm partida j s) else Inl OverflowError)"
  by (simp add: salva_jogador_def Let_def get_int_valor raising_def grava_form_def chave_def
        grava_eq cabem_def campos_def)

lemma salva_todos_fold:
  "salva_todos lim frm partida js s =
     (if list_all (cabem lim frm) js then Inr (fold (grava_form lim frm partida) js s)
      else Inl OverflowError)"
  by (induction js arbitrary: s) (simp_all add: salva_jogador_grava)

lemma list_all_todos_jogadores:
  "list_all P (todos_jogadores (snd (garante_partida d s))) = list_all P (jogadores s)"
  by (simp add: list_all_iff todos_jogadores_def garante_partida_outras)

lemma index_eq:
  "index lim req s =
     (case data_da_requisicao lim req of
        Inl e \<Rightarrow> (Inl e, s)
      | Inr d \<Rightarrow>
          if req_method req = POST then
            (if list_all (cabem lim (form req)) (jogadores s) then
               (Inr (RedirectIndex (isoformat d)),
                fold (grava_form lim (form req) (fst (garante_partida d s)))
                  (todos_jogadores (snd (garante_partida d s))) (snd (garante_partida d s)))
             else (Inl OverflowError, snd (garante_partida d s)))
          else
            (Inr (RenderIndex
               \<lparr>v_partida = fst (garante_partida d s),
                v_goleiros = filter (\<lambda>j. goleiro j = Some True)
                               (todos_jogadores (snd (garante_partida d s))),
                v_jogadores_linha = filter (\<lambda>j. goleiro j \<noteq> Some True)
                               (todos_jogadores (snd (garante_partida d s))),
                v_estat_por_jogador =
                  fold (\<lambda>j m. AList.update (jog_id j)
                                 (estat_do_dia (snd (garante_partida d s))
                                    (fst (garante_partida d s)) j) m)
                    (todos_jogadores (snd (garante_partida d s))) [],
                v_ranking = ranking (snd (garante_partida d s))
                              (todos_jogadores (snd (garante_partida d s)))\<rparr>),
             snd (garante_partida d s)))"
proof (cases "data_da_requisicao lim req")
  case (Inl e)
  then show ?thesis by (simp add: index_def)
next
  case (Inr d)
  obtain p s1 where g: "garante_partida d s = (p, s1)"
    by (cases "garante_partida d s")
  have la: "list_all (cabem lim (form req)) (todos_jogadores s1)
              = list_all (cabem lim (form req)) (jogadores s)"
    using list_all_todos_jogadores [of "cabem lim (form req)" d s] by (simp add: g)
  show ?thesis
    by (simp add: index_def Let_def Inr g salva_todos_fold la)
qed

lemma grava_partidas: "partidas (grava_linha pid jid g a v e sg s) = partidas s"
  by (simp add: grava_linha_def split: option.split)

lemma grava_jogadores: "jogadores (grava_linha pid jid g a v e sg s) = jogadores s"
  by (simp add: grava_linha_def split: option.split)

lemma fold_grava_form_partidas:
  "partidas (fold (grava_form lim frm p) js s) = partidas s"
  by (induction js arbitrary: s) (simp_all add: grava_form_def grava_partidas)

lemma fold_grava_form_jogadores:
  "jogadores (fold (grava_form lim frm p) js s) = jogadores s"
  by (induction js arbitrary: s) (simp_all add: grava_form_def grava_jogadores)

lemma index_isl:
  "isl (fst (index lim req s))
     = (isl (data_da_requisicao lim req)
        \<or> req_method req = POST \<and> \<not> list_all (cabem lim (form req)) (jogadores s))"
  by (simp add: index_eq split: sum.split)

lemma index_data_erro:
  "data_da_requisicao lim req = Inl e \<Longrightarrow> index lim req s = (Inl e, s)"
  by (simp add: index_eq)


lemma fold_max_ge_start: "a \<le> fold max ids (a::int)"
proof (induction ids arbitrary: a)
  case Nil
  show ?case by simp
next
  case (Cons x xs)
  have "a \<le> max x a" by simp
  also have "max x a \<le> fold max xs (max x a)" by (rule Cons.IH)
  finally show ?case by simp
qed

lemma fold_max_ge_elem: "x \<in> set ids \<Longrightarrow> x \<le> fold max ids (a::int)"
proof (induction ids arbitrary: a)
  case Nil
  then show ?case by simp
next
  case (Cons y ys)
  show ?case
  proof (cases "x = y")
    case True
    have "x \<le> max y a" using True by simp
    also have "max y a \<le> fold max ys (max y a)" by (rule fold_max_ge_start)
    finally show ?thesis by simp
  next
    case False
    with Cons.prems have "x \<in> set ys" by simp
    then show ?thesis using Cons.IH by simp
  qed
qed

lemma next_id_greater: "x \<in> set ids \<Longrightarrow> x < next_id ids"
  using fold_max_ge_elem [of x ids 0] by (simp add: next_id_def)

lemma find_app:
  "find P (xs @ ys) = (case find P xs of None \<Rightarrow> find P ys | Some x \<Rightarrow> Some x)"
  by (induction xs) simp_all

lemma next_id_fresh: "next_id ids \<notin> set ids"
  using next_id_greater [of "next_id ids" ids] by auto


lemma find_Some_first: "find P xs = Some x \<Longrightarrow> P x \<and> x \<in> set xs"
  by (induction xs) (auto split: if_splits)

lemma garante_partida_achada:
  "find (\<lambda>q. data q = d) (partidas s) = Some q \<Longrightarrow> garante_partida d s = (q, s)"
  by (simp add: garante_partida_def)

lemma garante_partida_nova:
  "find (\<lambda>q. data q = d) (partidas s) = None \<Longrightarrow>
     garante_partida d s
       = (\<lparr>par_id = next_id (map par_id (partidas s)), data = d\<rparr>,
          s\<lparr>partidas := partidas s @ [\<lparr>par_id = next_id (map par_id (partidas s)), data = d\<rparr>]\<rparr>)"
  by (simp add: garante_partida_def Let_def)

lemma garante_partida_find:
  "find (\<lambda>q. data q = d) (partidas (snd (garante_partida d s))) = Some (fst (garante_partida d s))"
proof (cases "find (\<lambda>q. data q = d) (partidas s)")
  case None
  then show ?thesis
    by (simp add: garante_partida_nova find_app)
next
  case (Some q)
  then show ?thesis
    by (simp add: garante_partida_achada)
qed




lemma distinct_filter_key:
  "distinct (map f xs) \<Longrightarrow> x \<in> set xs \<Longrightarrow> filter (\<lambda>y. f y = f x) xs = [x]"
proof (induction xs)
  case Nil
  then show ?case by simp
next
  case (Cons y ys)
  show ?case
  proof (cases "x = y")
    case True
    have "f y \<notin> f ` set ys"
      using Cons.prems(1) by simp
    then have "filter (\<lambda>z. f z = f y) ys = []"
      unfolding filter_empty_conv by (metis imageI)
    with True show ?thesis by simp
  next
    case False
    with Cons show ?thesis by auto
  qed
qed




lemma days_in_month_le: "1 \<le> m \<Longrightarrow> m \<le> 12 \<Longrightarrow> days_in_month y m \<le> 31"
proof -
  assume "1 \<le> m" "m \<le> 12"
  then have "m = 1 \<or> m = 2 \<or> m = 3 \<or> m = 4 \<or> m = 5 \<or> m = 6 \<or> m = 7 \<or> m = 8
             \<or> m = 9 \<or> m = 10 \<or> m = 11 \<or> m = 12"
    by arith
  then show ?thesis
    by (auto simp: days_in_month_def)
qed

lemma mk_date_isl:
  "isl (mk_date y m d)
     = (\<not> (1 \<le> y \<and> y \<le> 9999 \<and> 1 \<le> m \<and> m \<le> 12 \<and> 1 \<le> d \<and> d \<le> days_in_month y m))"
proof (cases "1 \<le> y \<and> y \<le> 9999 \<and> 1 \<le> m \<and> m \<le> 12 \<and> 1 \<le> d \<and> d \<le> days_in_month y m")
  case True
  then have "d \<le> 31"
    using days_in_month_le [of m y] by simp
  with True have "fits_c_int y \<and> fits_c_int m \<and> fits_c_int d"
    by (simp add: fits_c_int_def)
  with True show ?thesis
    by (simp add: mk_date_def)
next
  case False
  then show ?thesis
    by (auto simp: mk_date_def)
qed

lemma data_da_requisicao_isl:
  "isl (data_da_requisicao lim req)
     = (case args_data req of None \<Rightarrow> False | Some t \<Rightarrow> t \<noteq> [] \<and> \<not> data_valida lim t)"
proof (cases "args_data req")
  case None
  then show ?thesis by (simp add: data_da_requisicao_def)
next
  case (Some t)
  show ?thesis
  proof (cases "t = []")
    case True
    with Some show ?thesis by (simp add: data_da_requisicao_def)
  next
    case False
    have "isl (case split t CHR ''-'' of
                 [a, b, c] \<Rightarrow>
                   raising (py_int lim a) (\<lambda>ano.
                   raising (py_int lim b) (\<lambda>mes.
                   raising (py_int lim c) (\<lambda>dia. mk_date ano mes dia)))
               | _ \<Rightarrow> Inl ValueError)
          = (\<not> data_valida lim t)"
      by (simp add: data_valida_def raising_def mk_date_isl split: list.split sum.split)
    with Some False show ?thesis
      by (simp add: data_da_requisicao_def)
  qed
qed

lemma data_da_requisicao_hoje:
  "args_data req = None \<or> args_data req = Some [] \<Longrightarrow> data_da_requisicao lim req = Inr (today req)"
  by (auto simp: data_da_requisicao_def)

text \<open>
  Claim C8 as it is worded fails in both directions: \<open>2024-13-01\<close> is three
  dash-separated integers and reading the date raises, since there is no month 13;
  and an empty parameter is present and is no date, yet nothing is raised.
\<close>

theorem index_date_claim_counterexample:
  "tres_inteiros 0 ''2024-13-01''
   \<and> data_da_requisicao 0
        \<lparr>req_method = GET, args_data = Some ''2024-13-01'', form = [], today = hoje\<rparr>
       = Inl ValueError
   \<and> fst (index 0 \<lparr>req_method = GET, args_data = Some ''2024-13-01'', form = [], today = hoje\<rparr>
             empty_db) = Inl ValueError
   \<and> \<not> tres_inteiros 0 []
   \<and> \<not> isl (fst (index 0 \<lparr>req_method = GET, args_data = Some [], form = [], today = hoje\<rparr>
                    empty_db))"
  by code_simp

text \<open>
  Claim C8, amended. Reading the date (lines 87 to 92) raises exactly when the query
  parameter \<open>data\<close> is present, is not the empty string, and is not three
  dash-separated integers that make a date of the calendar (a year from 1 to 9999, a
  month from 1 to 12, a day of that month); the view then raises that error and leaves
  the database as it was. When the parameter is absent or empty, reading the date
  raises nothing and the date is the current one. Once the date is read the match
  shown or saved is the match of that date, and the only error left to the view is the
  OverflowError of a posted counter that does not fit its column.
\<close>

theorem index_date_error:
  "isl (data_da_requisicao lim req)
     = (case args_data req of None \<Rightarrow> False | Some t \<Rightarrow> t \<noteq> [] \<and> \<not> data_valida lim t)
   \<and> (\<forall>e. data_da_requisicao lim req = Inl e \<longrightarrow> index lim req s = (Inl e, s))
   \<and> (args_data req = None \<or> args_data req = Some [] \<longrightarrow>
        data_da_requisicao lim req = Inr (today req))
   \<and> (\<forall>d. data_da_requisicao lim req = Inr d \<longrightarrow>
         find (\<lambda>p. data p = d) (partidas (snd (index lim req s)))
           = Some (fst (garante_partida d s))
       \<and> (isl (fst (index lim req s))
            = (req_method req = POST \<and> \<not> list_all (cabem lim (form req)) (jogadores s)))
       \<and> (\<forall>e. fst (index lim req s) = Inl e \<longrightarrow> e = OverflowError)
       \<and> (\<forall>v. fst (index lim req s) = Inr (RenderIndex v)
               \<longrightarrow> v_partida v = fst (garante_partida d s))
       \<and> (\<forall>u. fst (index lim req s) = Inr (RedirectIndex u) \<longrightarrow> u = isoformat d))"
proof -
  have a: "isl (data_da_requisicao lim req)
     = (case args_data req of None \<Rightarrow> False | Some t \<Rightarrow> t \<noteq> [] \<and> \<not> data_valida lim t)"
    by (rule data_da_requisicao_isl)
  have b: "index lim req s = (Inl e, s)" if "data_da_requisicao lim req = Inl e" for e
    by (rule index_data_erro [OF that])
  have c: "data_da_requisicao lim req = Inr (today req)"
    if "args_data req = None \<or> args_data req = Some []"
    by (rule data_da_requisicao_hoje [OF that])
  have d: "find (\<lambda>p. data p = d) (partidas (snd (index lim req s)))
           = Some (fst (garante_partida d s))
       \<and> (isl (fst (index lim req s))
            = (req_method req = POST \<and> \<not> list_all (cabem lim (form req)) (jogadores s)))
       \<and> (\<forall>e. fst (index lim req s) = Inl e \<longrightarrow> e = OverflowError)
       \<and> (\<forall>v. fst (index lim req s) = Inr (RenderIndex v)
               \<longrightarrow> v_partida v = fst (garante_partida d s))
       \<and> (\<forall>u. fst (index lim req s) = Inr (RedirectIndex u) \<longrightarrow> u = isoformat d)"
    if h: "data_da_requisicao lim req = Inr d" for d
  proof -
    have p: "partidas (snd (index lim req s)) = partidas (snd (garante_partida d s))"
      by (simp add: index_eq h fold_grava_form_partidas)
    have f: "find (\<lambda>p. data p = d) (partidas (snd (index lim req s)))
               = Some (fst (garante_partida d s))"
      by (simp only: p garante_partida_find)
    have i: "isl (fst (index lim req s))
            = (req_method req = POST \<and> \<not> list_all (cabem lim (form req)) (jogadores s))"
      by (simp add: index_isl h)
    have o: "fst (index lim req s) = Inl e \<Longrightarrow> e = OverflowError" for e
      using h by (auto simp: index_eq split: if_splits)
    have r: "fst (index lim req s) = Inr (RenderIndex v)
               \<Longrightarrow> v_partida v = fst (garante_partida d s)" for v
      using h by (auto simp: index_eq split: if_splits)
    have u: "fst (index lim req s) = Inr (RedirectIndex u) \<Longrightarrow> u = isoformat d" for u
      using h by (auto simp: index_eq split: if_splits)
    from f i o r u show ?thesis by blast
  qed
  from a b c d show ?thesis by blast
qed

theorem index_date_error_witness:
  "args_data ex_get = None
   \<and> data_da_requisicao 0 ex_get = Inr hoje
   \<and> index 0 ex_get ex_db = (Inr (RenderIndex ex_view), ex_db2)
   \<and> find (\<lambda>p. data p = hoje) (partidas ex_db2) = Some \<lparr>par_id = 2, data = hoje\<rparr>
   \<and> v_partida ex_view = \<lparr>par_id = 2, data = hoje\<rparr>
   \<and> \<not> data_valida 0 ''2024-02-30''
   \<and> isl (data_da_requisicao 0 (ex_get\<lparr>args_data := Some ''2024-02-30''\<rparr>))
   \<and> index 0 (ex_get\<lparr>args_data := Some ''2024-02-30''\<rparr>) ex_db = (Inl ValueError, ex_db)
   \<and> data_valida 0 ''2024-02-29''
   \<and> \<not> isl (data_da_requisicao 0 (ex_get\<lparr>args_data := Some ''2024-02-29''\<rparr>))
   \<and> data_da_requisicao 0 ex_estouro = Inr \<lparr>year = 2024, month = 1, day = 15\<rparr>
   \<and> fst (index 0 ex_estouro ex_db) = Inl OverflowError"
proof -
  have n: "args_data ex_get = None"
    by (simp add: ex_get_def)
  have t: "today ex_get = hoje"
    by (simp add: ex_get_def)
  have g: "fst (garante_partida hoje ex_db) = \<lparr>par_id = 2, data = hoje\<rparr>"
    by code_simp
  have v1: "\<not> data_valida 0 ''2024-02-30''"
    by code_simp
  have e1: "data_da_requisicao 0 (ex_get\<lparr>args_data := Some ''2024-02-30''\<rparr>) = Inl ValueError"
    by code_simp
  have v2: "data_valida 0 ''2024-02-29''"
    by code_simp
  have d3: "data_da_requisicao 0 ex_estouro = Inr \<lparr>year = 2024, month = 1, day = 15\<rparr>"
    by code_simp
  have m3: "req_method ex_estouro = POST"
    by (simp add: ex_estouro_def)
  have c3: "\<not> list_all (cabem 0 (form ex_estouro)) (jogadores ex_db)"
    by code_simp
  show ?thesis
    using index_date_error [of 0 ex_get ex_db]
      index_date_error [of 0 "ex_get\<lparr>args_data := Some ''2024-02-30''\<rparr>" ex_db]
      index_date_error [of 0 "ex_get\<lparr>args_data := Some ''2024-02-29''\<rparr>" ex_db]
      index_date_error [of 0 ex_estouro ex_db]
      n t g v1 e1 v2 d3 m3 c3 ex_index_get
    by (auto simp: isl_def)
qed

section \<open>Saving the statistics of a match\<close>

lemma par_fun: "par pid jid = (\<lambda>x. partida_id x = pid \<and> jogador_id x = jid)"
  by (simp add: par_def fun_eq_iff)

lemma find_filter:
  "find P xs = (case filter P xs of [] \<Rightarrow> None | x # _ \<Rightarrow> Some x)"
  by (induction xs) simp_all

lemma grava_estatisticas_nova:
  assumes "find (par pid jid) (estatisticas s) = None"
  shows "estatisticas (grava_linha pid jid g a v e sg s) =
           estatisticas s @
             [\<lparr>est_id = next_id (map est_id (estatisticas s)),
               partida_id = pid, jogador_id = jid,
               gols = Some g, assistencias = Some a, vitorias = Some v,
               empates = Some e, sem_gol = Some sg\<rparr>]"
  using assms by (simp add: grava_linha_def par_fun)

lemma grava_estatisticas_achada:
  assumes "find (par pid jid) (estatisticas s) = Some estat"
  shows "estatisticas (grava_linha pid jid g a v e sg s) =
           map (\<lambda>x. if est_id x = est_id estat
                     then x\<lparr>gols := Some g, assistencias := Some a, vitorias := Some v,
                            empates := Some e, sem_gol := Some sg\<rparr>
                     else x)
             (estatisticas s)"
  using assms by (simp add: grava_linha_def par_fun)

lemma grava_chaves_unicas:
  assumes "chaves_unicas s"
  shows "chaves_unicas (grava_linha pid jid g a v e sg s)"
proof (cases "find (par pid jid) (estatisticas s)")
  case None
  have "\<not> par pid jid x" if "x \<in> set (estatisticas s)" for x
    using None that by (simp add: find_None_iff)
  then have "(pid, jid) \<notin> (\<lambda>x. (partida_id x, jogador_id x)) ` set (estatisticas s)"
    by (auto simp: par_def)
  moreover have "next_id (map est_id (estatisticas s)) \<notin> est_id ` set (estatisticas s)"
    using next_id_fresh [of "map est_id (estatisticas s)"] by simp
  ultimately show ?thesis
    using assms
    by (simp add: chaves_unicas_def grava_estatisticas_nova [OF None] grava_jogadores)
next
  case (Some estat)
  let ?f = "\<lambda>x. if est_id x = est_id estat
                 then x\<lparr>gols := Some g, assistencias := Some a, vitorias := Some v,
                        empates := Some e, sem_gol := Some sg\<rparr>
                 else x"
  have "map est_id (map ?f (estatisticas s)) = map est_id (estatisticas s)"
    by (induction "estatisticas s") simp_all
  moreover have "map (\<lambda>x. (partida_id x, jogador_id x)) (map ?f (estatisticas s))
                   = map (\<lambda>x. (partida_id x, jogador_id x)) (estatisticas s)"
    by (induction "estatisticas s") simp_all
  ultimately show ?thesis
    using assms
    by (simp only: chaves_unicas_def grava_estatisticas_achada [OF Some] grava_jogadores)
qed

lemma filter_map_keeps:
  assumes "\<And>x. P (f x) = P x"
  shows "filter P (map f xs) = map f (filter P xs)"
  by (induction xs) (simp_all add: assms)

lemma distinct_key_eq:
  "distinct (map f xs) \<Longrightarrow> x \<in> set xs \<Longrightarrow> y \<in> set xs \<Longrightarrow> f x = f y \<Longrightarrow> x = y"
  by (meson distinct_map inj_on_def)

lemma par_pair: "par pid jid x = ((partida_id x, jogador_id x) = (pid, jid))"
  by (auto simp: par_def)

lemma filter_par_unique:
  assumes "chaves_unicas s" and "x \<in> set (estatisticas s)" and "par pid jid x"
  shows "filter (par pid jid) (estatisticas s) = [x]"
proof -
  have "filter (\<lambda>y. (partida_id y, jogador_id y) = (partida_id x, jogador_id x)) (estatisticas s) = [x]"
    using assms(1,2) by (intro distinct_filter_key) (simp_all add: chaves_unicas_def)
  moreover have "par pid jid = (\<lambda>y. (partida_id y, jogador_id y) = (partida_id x, jogador_id x))"
    using assms(3) by (auto simp: par_def fun_eq_iff)
  ultimately show ?thesis by simp
qed

lemma grava_row:
  assumes "chaves_unicas s"
  shows "\<exists>x. filter (par pid jid) (estatisticas (grava_linha pid jid g a v e sg s)) = [x]
            \<and> gols x = Some g \<and> assistencias x = Some a \<and> vitorias x = Some v
            \<and> empates x = Some e \<and> sem_gol x = Some sg"
proof (cases "find (par pid jid) (estatisticas s)")
  case None
  then have "filter (par pid jid) (estatisticas s) = []"
    by (simp add: find_filter split: list.splits)
  then show ?thesis
    by (simp add: grava_estatisticas_nova [OF None] par_def)
next
  case (Some estat)
  let ?f = "\<lambda>x. if est_id x = est_id estat
                 then x\<lparr>gols := Some g, assistencias := Some a, vitorias := Some v,
                        empates := Some e, sem_gol := Some sg\<rparr>
                 else x"
  have "par pid jid estat \<and> estat \<in> set (estatisticas s)"
    by (rule find_Some_first [OF Some])
  then have one: "filter (par pid jid) (estatisticas s) = [estat]"
    using filter_par_unique [OF assms] by simp
  have "filter (par pid jid) (map ?f (estatisticas s))
          = map ?f (filter (par pid jid) (estatisticas s))"
    by (rule filter_map_keeps) (simp add: par_def)
  then have "filter (par pid jid) (estatisticas (grava_linha pid jid g a v e sg s)) = [?f estat]"
    by (simp add: grava_estatisticas_achada [OF Some] one)
  then show ?thesis by simp
qed

lemma grava_other:
  assumes "chaves_unicas s" and "(pid', jid') \<noteq> (pid, jid)"
  shows "filter (par pid jid) (estatisticas (grava_linha pid' jid' g a v e sg s))
           = filter (par pid jid) (estatisticas s)"
proof (cases "find (par pid' jid') (estatisticas s)")
  case None
  show ?thesis
    using assms(2) by (auto simp: grava_estatisticas_nova [OF None] par_def)
next
  case (Some estat)
  let ?f = "\<lambda>x. if est_id x = est_id estat
                 then x\<lparr>gols := Some g, assistencias := Some a, vitorias := Some v,
                        empates := Some e, sem_gol := Some sg\<rparr>
                 else x"
  have es: "par pid' jid' estat \<and> estat \<in> set (estatisticas s)"
    by (rule find_Some_first [OF Some])
  have same: "?f x = x" if "x \<in> set (filter (par pid jid) (estatisticas s))" for x
  proof -
    from that have x: "x \<in> set (estatisticas s)" "par pid jid x" by simp_all
    have "x \<noteq> estat"
      using x(2) es assms(2) by (auto simp: par_def)
    then have "est_id x \<noteq> est_id estat"
      using distinct_key_eq [of est_id "estatisticas s" x estat] assms(1) x(1) es
      by (auto simp: chaves_unicas_def)
    then show ?thesis by simp
  qed
  have "filter (par pid jid) (map ?f (estatisticas s))
          = map ?f (filter (par pid jid) (estatisticas s))"
    by (rule filter_map_keeps) (simp add: par_def)
  also have "\<dots> = filter (par pid jid) (estatisticas s)"
    using same by (intro map_idI) blast
  finally show ?thesis
    by (simp only: grava_estatisticas_achada [OF Some])
qed

lemma grava_same:
  assumes "chaves_unicas s"
    and "filter (par pid jid) (estatisticas s) = [x]"
    and "gols x = Some g" "assistencias x = Some a" "vitorias x = Some v"
        "empates x = Some e" "sem_gol x = Some sg"
  shows "grava_linha pid jid g a v e sg s = s"
proof -
  let ?f = "\<lambda>y. if est_id y = est_id x
                 then y\<lparr>gols := Some g, assistencias := Some a, vitorias := Some v,
                        empates := Some e, sem_gol := Some sg\<rparr>
                 else y"
  have fx: "find (par pid jid) (estatisticas s) = Some x"
    by (simp add: find_filter assms(2))
  have xs: "x \<in> set (estatisticas s)"
    using find_Some_first [OF fx] by simp
  have upd: "x\<lparr>gols := Some g, assistencias := Some a, vitorias := Some v,
               empates := Some e, sem_gol := Some sg\<rparr> = x"
    using assms(3-7) by (cases x) simp
  have "?f y = y" if "y \<in> set (estatisticas s)" for y
  proof (cases "est_id y = est_id x")
    case True
    then have "y = x"
      using distinct_key_eq [of est_id "estatisticas s" y x] assms(1) that xs
      by (simp add: chaves_unicas_def)
    with upd show ?thesis by simp
  next
    case False
    then show ?thesis by simp
  qed
  then have "map ?f (estatisticas s) = estatisticas s"
    by (intro map_idI) blast
  then have "estatisticas (grava_linha pid jid g a v e sg s) = estatisticas s"
    by (simp only: grava_estatisticas_achada [OF fx])
  moreover have "partidas (grava_linha pid jid g a v e sg s) = partidas s"
    by (rule grava_partidas)
  moreover have "jogadores (grava_linha pid jid g a v e sg s) = jogadores s"
    by (rule grava_jogadores)
  ultimately show ?thesis
    by (cases s, cases "grava_linha pid jid g a v e sg s") simp
qed

lemma grava_form_chaves:
  "chaves_unicas s \<Longrightarrow> chaves_unicas (grava_form lim frm p j s)"
  by (simp add: grava_form_def grava_chaves_unicas)

lemma fold_grava_form_chaves:
  "chaves_unicas s \<Longrightarrow> chaves_unicas (fold (grava_form lim frm p) js s)"
  by (induction js arbitrary: s) (simp_all add: grava_form_chaves)

lemma fold_grava_form_other:
  assumes "chaves_unicas s" and "jid \<notin> jog_id ` set js"
  shows "filter (par pid jid) (estatisticas (fold (grava_form lim frm p) js s))
           = filter (par pid jid) (estatisticas s)"
  using assms
proof (induction js arbitrary: s)
  case Nil
  show ?case by simp
next
  case (Cons a js)
  have "(par_id p, jog_id a) \<noteq> (pid, jid)"
    using Cons.prems(2) by auto
  then have "filter (par pid jid) (estatisticas (grava_form lim frm p a s))
               = filter (par pid jid) (estatisticas s)"
    unfolding grava_form_def by (rule grava_other [OF Cons.prems(1)])
  moreover have "filter (par pid jid)
                   (estatisticas (fold (grava_form lim frm p) js (grava_form lim frm p a s)))
                 = filter (par pid jid) (estatisticas (grava_form lim frm p a s))"
    using Cons.prems by (intro Cons.IH grava_form_chaves) simp_all
  ultimately show ?case by simp
qed

lemma grava_form_row:
  assumes "chaves_unicas s"
  shows "\<exists>x. filter (par (par_id p) (jog_id j)) (estatisticas (grava_form lim frm p j s)) = [x]
            \<and> contadores_de lim frm j x"
  unfolding grava_form_def contadores_de_def by (rule grava_row [OF assms])

lemma fold_grava_form_rows:
  assumes "chaves_unicas s" and "distinct (map jog_id js)" and "j \<in> set js"
  shows "\<exists>x. filter (par (par_id p) (jog_id j))
                (estatisticas (fold (grava_form lim frm p) js s)) = [x]
            \<and> contadores_de lim frm j x"
  using assms
proof (induction js arbitrary: s)
  case Nil
  then show ?case by simp
next
  case (Cons a js)
  let ?s1 = "grava_form lim frm p a s"
  have c1: "chaves_unicas ?s1"
    by (rule grava_form_chaves [OF Cons.prems(1)])
  show ?case
  proof (cases "j = a")
    case True
    have "jog_id a \<notin> jog_id ` set js"
      using Cons.prems(2) by simp
    then have "filter (par (par_id p) (jog_id a))
                 (estatisticas (fold (grava_form lim frm p) js ?s1))
               = filter (par (par_id p) (jog_id a)) (estatisticas ?s1)"
      by (rule fold_grava_form_other [OF c1])
    with grava_form_row [OF Cons.prems(1), of p a lim frm] True show ?thesis
      by simp
  next
    case False
    with Cons.prems have "j \<in> set js" "distinct (map jog_id js)" by simp_all
    with Cons.IH [OF c1] show ?thesis by simp
  qed
qed

lemma grava_form_same:
  assumes "chaves_unicas s"
    and "filter (par (par_id p) (jog_id j)) (estatisticas s) = [x]"
    and "contadores_de lim frm j x"
  shows "grava_form lim frm p j s = s"
  using assms(3) unfolding grava_form_def contadores_de_def
  by (intro grava_same [OF assms(1,2)]) simp_all

lemma fold_fixed: "(\<And>x. x \<in> set xs \<Longrightarrow> f x t = t) \<Longrightarrow> fold f xs t = t"
  by (induction xs) simp_all

lemma todos_jogadores_distinct:
  "chaves_unicas s \<Longrightarrow> distinct (map jog_id (todos_jogadores s))"
proof -
  assume "chaves_unicas s"
  then have "distinct (map jog_id (jogadores s))"
    by (simp add: chaves_unicas_def)
  moreover have "mset (map jog_id (todos_jogadores s)) = mset (map jog_id (jogadores s))"
    by (simp add: todos_jogadores_def)
  ultimately show ?thesis
    by (metis mset_eq_imp_distinct_iff)
qed

lemma garante_partida_chaves:
  "chaves_unicas (snd (garante_partida d s)) = chaves_unicas s"
  by (simp add: chaves_unicas_def garante_partida_outras)

lemma index_chaves:
  assumes "chaves_unicas s"
  shows "chaves_unicas (snd (index lim req s))"
proof (cases "data_da_requisicao lim req")
  case (Inl e)
  with assms show ?thesis by (simp add: index_eq)
next
  case (Inr d)
  have "chaves_unicas (snd (garante_partida d s))"
    using assms by (simp add: garante_partida_chaves)
  then show ?thesis
    using Inr by (simp add: index_eq fold_grava_form_chaves)
qed

lemma jogadores_view_chaves:
  assumes "chaves_unicas s"
  shows "chaves_unicas (snd (jogadores_view req s))"
proof -
  have "next_id (map jog_id (jogadores s)) \<notin> jog_id ` set (jogadores s)"
    using next_id_fresh [of "map jog_id (jogadores s)"] by simp
  with assms show ?thesis
    by (simp add: jogadores_view_def chaves_unicas_def Let_def split: option.split)
qed

lemma atende_chaves: "chaves_unicas s \<Longrightarrow> chaves_unicas (atende lim c s)"
  by (cases c) (simp_all add: atende_def index_chaves jogadores_view_chaves)

lemma run_chaves: "chaves_unicas s \<Longrightarrow> chaves_unicas (run lim cs s)"
  unfolding run_def by (induction cs arbitrary: s) (simp_all add: atende_chaves)

lemma empty_db_chaves: "chaves_unicas empty_db"
  by (simp add: chaves_unicas_def empty_db_def)

lemma index_post_linhas:
  assumes "req_method req = POST"
    and "data_da_requisicao lim req = Inr d"
    and "chaves_unicas s"
    and "list_all (cabem lim (form req)) (jogadores s)"
    and "j \<in> set (jogadores s)"
  shows "fst (index lim req s) = Inr (RedirectIndex (isoformat d))
       \<and> find (\<lambda>q. data q = d) (partidas (snd (index lim req s)))
           = Some (fst (garante_partida d s))
       \<and> (\<exists>x. filter (par (par_id (fst (garante_partida d s))) (jog_id j))
                  (estatisticas (snd (index lim req s))) = [x]
              \<and> contadores_de lim (form req) j x)
       \<and> index lim req (snd (index lim req s)) = index lim req s"
proof -
  let ?p = "fst (garante_partida d s)" and ?s1 = "snd (garante_partida d s)"
  let ?js = "todos_jogadores ?s1"
  let ?s2 = "fold (grava_form lim (form req) ?p) ?js ?s1"
  have ix: "index lim req s = (Inr (RedirectIndex (isoformat d)), ?s2)"
    using assms(1,2,4) by (simp add: index_eq)
  have c1: "chaves_unicas ?s1"
    using assms(3) by (simp add: garante_partida_chaves)
  have c2: "chaves_unicas ?s2"
    by (rule fold_grava_form_chaves [OF c1])
  have dj: "distinct (map jog_id ?js)"
    by (rule todos_jogadores_distinct [OF c1])
  have jin: "j \<in> set ?js"
    using assms(5) by (simp add: todos_jogadores_def garante_partida_outras)
  have p2: "partidas ?s2 = partidas ?s1"
    by (rule fold_grava_form_partidas)
  have j2: "jogadores ?s2 = jogadores s"
    by (simp add: fold_grava_form_jogadores garante_partida_outras)
  have fnd: "find (\<lambda>q. data q = d) (partidas ?s2) = Some ?p"
    by (simp only: p2 garante_partida_find)
  have row: "\<exists>x. filter (par (par_id ?p) (jog_id j)) (estatisticas ?s2) = [x]
                 \<and> contadores_de lim (form req) j x"
    by (rule fold_grava_form_rows [OF c1 dj jin])
  have g2: "garante_partida d ?s2 = (?p, ?s2)"
    by (rule garante_partida_achada [OF fnd])
  have t2: "todos_jogadores ?s2 = ?js"
    by (simp add: todos_jogadores_def fold_grava_form_jogadores)
  have "grava_form lim (form req) ?p k ?s2 = ?s2" if "k \<in> set ?js" for k
  proof -
    from fold_grava_form_rows [OF c1 dj that, of ?p lim "form req"]
    obtain x where "filter (par (par_id ?p) (jog_id k)) (estatisticas ?s2) = [x]"
      and "contadores_de lim (form req) k x"
      by blast
    then show ?thesis
      by (rule grava_form_same [OF c2])
  qed
  then have "fold (grava_form lim (form req) ?p) ?js ?s2 = ?s2"
    by (rule fold_fixed)
  then have "index lim req ?s2 = (Inr (RedirectIndex (isoformat d)), ?s2)"
    using assms(1,2,4) by (simp add: index_eq g2 t2 j2)
  with ix fnd row show ?thesis
    by simp
qed

text \<open>
  Claim C2 as it is worded fails: a counter beyond the 64 bits of its column is read
  by \<open>int\<close>, the row cannot be sent to the database, the view raises OverflowError
  and the submission leaves no statistic row at all.
\<close>

theorem index_post_overflow_counterexample:
  "req_method ex_estouro = POST
   \<and> data_da_requisicao 0 ex_estouro = Inr \<lparr>year = 2024, month = 1, day = 15\<rparr>
   \<and> jogadores (run 0 ex_cadastro empty_db) = ex_jogadores
   \<and> get_int 0 (form ex_estouro) ''j1_'' ''gols'' = Inr 9223372036854775808
   \<and> fst (index 0 ex_estouro (run 0 ex_cadastro empty_db)) = Inl OverflowError
   \<and> estatisticas (snd (index 0 ex_estouro (run 0 ex_cadastro empty_db))) = []"
  by code_simp

text \<open>
  Claim C2, amended. A form posted to the index view with a date it accepts and
  counters that fit their 64-bit columns, in a database reached by serving requests
  from the empty one, is answered with the redirect, and afterwards every player of
  the roster has exactly one statistic row for the match of that date, whose five
  counters are the values of the player's form fields (0 for a missing or unreadable
  field). Posting the same form again changes nothing: the rows are overwritten with
  the same values and none is added.
\<close>

theorem index_post_upsert:
  assumes "req_method req = POST"
    and "data_da_requisicao lim req = Inr d"
    and "s = run lim cs empty_db"
    and "list_all (cabem lim (form req)) (jogadores s)"
    and "j \<in> set (jogadores s)"
  shows "fst (index lim req s) = Inr (RedirectIndex (isoformat d))
       \<and> find (\<lambda>q. data q = d) (partidas (snd (index lim req s)))
           = Some (fst (garante_partida d s))
       \<and> (\<exists>x. filter (par (par_id (fst (garante_partida d s))) (jog_id j))
                  (estatisticas (snd (index lim req s))) = [x]
              \<and> contadores_de lim (form req) j x)
       \<and> index lim req (snd (index lim req s)) = index lim req s"
proof -
  have "chaves_unicas s"
    unfolding assms(3) by (rule run_chaves [OF empty_db_chaves])
  then show ?thesis
    by (rule index_post_linhas [OF assms(1,2) _ assms(4,5)])
qed

theorem index_post_upsert_witness:
  "req_method ex_post = POST
   \<and> data_da_requisicao 0 ex_post = Inr \<lparr>year = 2024, month = 1, day = 15\<rparr>
   \<and> list_all (cabem 0 (form ex_post)) (jogadores (run 0 ex_cadastro empty_db))
   \<and> \<lparr>jog_id = 3, nome = ''Bia'', goleiro = Some False\<rparr>
       \<in> set (jogadores (run 0 ex_cadastro empty_db))
   \<and> index 0 ex_post (run 0 ex_cadastro empty_db) = (Inr (RedirectIndex ''2024-01-15''), ex_db)
   \<and> filter (par 1 3) (estatisticas ex_db)
       = [\<lparr>est_id = 2, partida_id = 1, jogador_id = 3, gols = Some 0,
           assistencias = Some 0, vitorias = Some 4, empates = Some 1, sem_gol = Some 0\<rparr>]
   \<and> (\<exists>x. filter (par 1 3) (estatisticas ex_db) = [x]
          \<and> contadores_de 0 (form ex_post) \<lparr>jog_id = 3, nome = ''Bia'', goleiro = Some False\<rparr> x)
   \<and> index 0 ex_post ex_db = (Inr (RedirectIndex ''2024-01-15''), ex_db)"
proof -
  have m: "req_method ex_post = POST"
    by (simp add: ex_post_def)
  have d: "data_da_requisicao 0 ex_post = Inr \<lparr>year = 2024, month = 1, day = 15\<rparr>"
    by code_simp
  have c: "list_all (cabem 0 (form ex_post)) (jogadores (run 0 ex_cadastro empty_db))"
    by code_simp
  have j: "\<lparr>jog_id = 3, nome = ''Bia'', goleiro = Some False\<rparr>
             \<in> set (jogadores (run 0 ex_cadastro empty_db))"
    by code_simp
  have i: "index 0 ex_post (run 0 ex_cadastro empty_db)
             = (Inr (RedirectIndex ''2024-01-15''), ex_db)"
    by code_simp
  have g: "par_id (fst (garante_partida \<lparr>year = 2024, month = 1, day = 15\<rparr>
                          (run 0 ex_cadastro empty_db))) = 1"
    by code_simp
  have f: "filter (par 1 3) (estatisticas ex_db)
       = [\<lparr>est_id = 2, partida_id = 1, jogador_id = 3, gols = Some 0,
           assistencias = Some 0, vitorias = Some 4, empates = Some 1, sem_gol = Some 0\<rparr>]"
    by code_simp
  show ?thesis
    using index_post_upsert [OF m d refl c j] m d c j i g f by simp
qed

lemma valor_campo_zero:
  assumes "map_of frm k = None \<or> (\<exists>t. map_of frm k = Some t \<and> isl (py_int lim t))"
  shows "valor_campo lim frm k = 0"
  using assms by (auto simp: valor_campo_def split: sum.split)

lemma valor_campo_cons_zero:
  assumes "valor_campo lim frm k = 0"
  shows "valor_campo lim ((k, ''0'') # frm) k' = valor_campo lim frm k'"
proof (cases "k' = k")
  case True
  have "py_int lim ''0'' = Inr 0" by code_simp
  with True assms show ?thesis
    by (simp add: valor_campo_def)
next
  case False
  then show ?thesis
    by (simp add: valor_campo_def)
qed

lemma data_da_requisicao_form:
  "data_da_requisicao lim (req\<lparr>form := f\<rparr>) = data_da_requisicao lim req"
  by (cases "args_data req") (simp_all add: data_da_requisicao_def)

lemma index_form_cong:
  assumes "\<And>k. valor_campo lim f1 k = valor_campo lim f2 k"
  shows "index lim (req\<lparr>form := f1\<rparr>) s = index lim (req\<lparr>form := f2\<rparr>) s"
proof -
  have g: "grava_form lim f1 p = grava_form lim f2 p" for p
    by (simp add: grava_form_def fun_eq_iff assms)
  have c: "cabem lim f1 = cabem lim f2"
    by (simp add: cabem_def fun_eq_iff assms)
  show ?thesis
    by (cases "data_da_requisicao lim req")
       (simp_all add: index_eq data_da_requisicao_form g c)
qed

lemma coluna_contadores:
  assumes "contadores_de lim frm j x" and "campo \<in> set campos"
  shows "coluna campo x = Some (valor_campo lim frm (chave j campo))"
  using assms by (auto simp: campos_def coluna_def contadores_de_def)

text \<open>
  Claim C6 as it is worded fails: the text \<open>abc\<close> of one counter is read as 0, but
  the request does not succeed when another counter of the same form is an integer
  beyond the 64 bits of its column; the view raises OverflowError and nothing is
  stored.
\<close>

theorem malformed_counter_counterexample:
  "map_of (form ex_abc_estouro) (''j1_'' @ ''gols'') = Some ''abc''
   \<and> py_int 0 ''abc'' = Inl ValueError
   \<and> get_int 0 (form ex_abc_estouro) ''j1_'' ''gols'' = Inr 0
   \<and> data_da_requisicao 0 ex_abc_estouro = Inr \<lparr>year = 2024, month = 1, day = 15\<rparr>
   \<and> fst (index 0 ex_abc_estouro (run 0 ex_cadastro empty_db)) = Inl OverflowError
   \<and> estatisticas (snd (index 0 ex_abc_estouro (run 0 ex_cadastro empty_db))) = []"
  by code_simp

text \<open>
  Claim C6, amended. A counter field of a roster player that is missing from the
  posted form, or whose text \<open>int\<close> rejects, counts 0: \<open>get_int\<close> returns 0 and the
  view does what it does when the field holds the text \<open>0\<close>, so such a text is never
  why a request fails. When the date is accepted and the counters of the form fit
  their 64-bit columns the submission is answered with the redirect, and the
  player's row for the match holds 0 in that column.
\<close>

theorem counter_text_defaults_to_zero:
  assumes "req_method req = POST"
    and "data_da_requisicao lim req = Inr d"
    and "s = run lim cs empty_db"
    and "j \<in> set (jogadores s)"
    and "campo \<in> set campos"
    and "map_of (form req) (chave j campo) = None
         \<or> (\<exists>t. map_of (form req) (chave j campo) = Some t \<and> isl (py_int lim t))"
  shows "get_int lim (form req) (''j'' @ str_int (jog_id j) @ ''_'') campo = Inr 0
       \<and> index lim (req\<lparr>form := (chave j campo, ''0'') # form req\<rparr>) s = index lim req s
       \<and> (list_all (cabem lim (form req)) (jogadores s) \<longrightarrow>
            fst (index lim req s) = Inr (RedirectIndex (isoformat d))
          \<and> (\<exists>x. filter (par (par_id (fst (garante_partida d s))) (jog_id j))
                     (estatisticas (snd (index lim req s))) = [x]
                 \<and> coluna campo x = Some 0))"
proof -
  have z: "valor_campo lim (form req) (chave j campo) = 0"
    by (rule valor_campo_zero [OF assms(6)])
  then have a: "get_int lim (form req) (''j'' @ str_int (jog_id j) @ ''_'') campo = Inr 0"
    by (simp add: get_int_valor chave_def)
  have "index lim (req\<lparr>form := (chave j campo, ''0'') # form req\<rparr>) s
          = index lim (req\<lparr>form := form req\<rparr>) s"
    by (rule index_form_cong) (rule valor_campo_cons_zero [OF z])
  then have b: "index lim (req\<lparr>form := (chave j campo, ''0'') # form req\<rparr>) s
                  = index lim req s"
    by simp
  have c: "fst (index lim req s) = Inr (RedirectIndex (isoformat d))
          \<and> (\<exists>x. filter (par (par_id (fst (garante_partida d s))) (jog_id j))
                     (estatisticas (snd (index lim req s))) = [x]
                 \<and> coluna campo x = Some 0)"
    if f: "list_all (cabem lim (form req)) (jogadores s)"
  proof -
    have k: "chaves_unicas s"
      unfolding assms(3) by (rule run_chaves [OF empty_db_chaves])
    from index_post_linhas [OF assms(1,2) k f assms(4)]
    obtain x where r: "fst (index lim req s) = Inr (RedirectIndex (isoformat d))"
      and x: "filter (par (par_id (fst (garante_partida d s))) (jog_id j))
                (estatisticas (snd (index lim req s))) = [x]"
      and cx: "contadores_de lim (form req) j x"
      by blast
    have "coluna campo x = Some 0"
      using coluna_contadores [OF cx assms(5)] z by simp
    with r x show ?thesis by blast
  qed
  from a b c show ?thesis by blast
qed

theorem counter_text_defaults_to_zero_witness:
  "req_method ex_post = POST
   \<and> data_da_requisicao 0 ex_post = Inr \<lparr>year = 2024, month = 1, day = 15\<rparr>
   \<and> \<lparr>jog_id = 3, nome = ''Bia'', goleiro = Some False\<rparr>
       \<in> set (jogadores (run 0 ex_cadastro empty_db))
   \<and> ''gols'' \<in> set campos
   \<and> map_of (form ex_post) ''j3_gols'' = Some ''abc''
   \<and> py_int 0 ''abc'' = Inl ValueError
   \<and> list_all (cabem 0 (form ex_post)) (jogadores (run 0 ex_cadastro empty_db))
   \<and> get_int 0 (form ex_post) ''j3_'' ''gols'' = Inr 0
   \<and> index 0 (ex_post\<lparr>form := (''j3_gols'', ''0'') # form ex_post\<rparr>)
        (run 0 ex_cadastro empty_db)
       = index 0 ex_post (run 0 ex_cadastro empty_db)
   \<and> index 0 ex_post (run 0 ex_cadastro empty_db) = (Inr (RedirectIndex ''2024-01-15''), ex_db)
   \<and> (\<exists>x. filter (par 1 3) (estatisticas ex_db) = [x] \<and> coluna ''gols'' x = Some 0)"
proof -
  let ?bia = "\<lparr>jog_id = 3, nome = ''Bia'', goleiro = Some False\<rparr>"
  have m: "req_method ex_post = POST"
    by (simp add: ex_post_def)
  have d: "data_da_requisicao 0 ex_post = Inr \<lparr>year = 2024, month = 1, day = 15\<rparr>"
    by code_simp
  have j: "?bia \<in> set (jogadores (run 0 ex_cadastro empty_db))"
    by code_simp
  have c: "''gols'' \<in> set campos"
    by (simp add: campos_def)
  have k: "chave ?bia ''gols'' = ''j3_gols''"
    by code_simp
  have p: "str_int 3 = ''3''"
    by code_simp
  have f: "map_of (form ex_post) ''j3_gols'' = Some ''abc''"
    by (simp add: ex_post_def)
  have e: "py_int 0 ''abc'' = Inl ValueError"
    by code_simp
  have h: "map_of (form ex_post) (chave ?bia ''gols'') = None
           \<or> (\<exists>t. map_of (form ex_post) (chave ?bia ''gols'') = Some t \<and> isl (py_int 0 t))"
    using f e by (simp add: k)
  have l: "list_all (cabem 0 (form ex_post)) (jogadores (run 0 ex_cadastro empty_db))"
    by code_simp
  have i: "index 0 ex_post (run 0 ex_cadastro empty_db)
             = (Inr (RedirectIndex ''2024-01-15''), ex_db)"
    by code_simp
  have g: "par_id (fst (garante_partida \<lparr>year = 2024, month = 1, day = 15\<rparr>
                          (run 0 ex_cadastro empty_db))) = 1"
    by code_simp
  show ?thesis
    using counter_text_defaults_to_zero [OF m d refl j c h] m d j c f e l i g
    by (simp add: k p)
qed

section \<open>The sign of the stored counters\<close>

lemma valor_campo_nao_negativo:
  assumes "list_all (\<lambda>(k, t). texto_nao_negativo lim t) frm"
  shows "0 \<le> valor_campo lim frm k"
proof (cases "map_of frm k")
  case None
  then show ?thesis by (simp add: valor_campo_def)
next
  case (Some t)
  then have "(k, t) \<in> set frm"
    by (rule map_of_SomeD)
  with assms have "texto_nao_negativo lim t"
    by (auto simp: list_all_iff)
  with Some show ?thesis
    by (simp add: valor_campo_def texto_nao_negativo_def split: sum.splits)
qed

lemma grava_nao_negativos:
  assumes "list_all contadores_nao_negativos (estatisticas s)"
    and "0 \<le> g" "0 \<le> a" "0 \<le> v" "0 \<le> e" "0 \<le> sg"
  shows "list_all contadores_nao_negativos (estatisticas (grava_linha pid jid g a v e sg s))"
proof (cases "find (par pid jid) (estatisticas s)")
  case None
  show ?thesis
    using assms
    by (simp add: grava_estatisticas_nova [OF None] contadores_nao_negativos_def counter_def)
next
  case (Some estat)
  show ?thesis
    using assms
    by (auto simp: grava_estatisticas_achada [OF Some] list_all_iff
          contadores_nao_negativos_def counter_def)
qed

lemma grava_form_nao_negativos:
  assumes "list_all contadores_nao_negativos (estatisticas s)"
    and "list_all (\<lambda>(k, t). texto_nao_negativo lim t) frm"
  shows "list_all contadores_nao_negativos (estatisticas (grava_form lim frm p j s))"
  unfolding grava_form_def
  by (intro grava_nao_negativos assms(1) valor_campo_nao_negativo assms(2))

lemma fold_grava_form_nao_negativos:
  assumes "list_all contadores_nao_negativos (estatisticas s)"
    and "list_all (\<lambda>(k, t). texto_nao_negativo lim t) frm"
  shows "list_all contadores_nao_negativos
           (estatisticas (fold (grava_form lim frm p) js s))"
  using assms(1)
  by (induction js arbitrary: s) (simp_all add: grava_form_nao_negativos assms(2))

lemma index_nao_negativos:
  assumes "list_all contadores_nao_negativos (estatisticas s)"
    and "list_all (\<lambda>(k, t). texto_nao_negativo lim t) (form req)"
  shows "list_all contadores_nao_negativos (estatisticas (snd (index lim req s)))"
proof (cases "data_da_requisicao lim req")
  case (Inl e)
  with assms(1) show ?thesis by (simp add: index_eq)
next
  case (Inr d)
  have "list_all contadores_nao_negativos (estatisticas (snd (garante_partida d s)))"
    using assms(1) by (simp add: garante_partida_outras)
  then show ?thesis
    using Inr by (simp add: index_eq fold_grava_form_nao_negativos assms(2))
qed

lemma jogadores_view_estatisticas:
  "estatisticas (snd (jogadores_view req s)) = estatisticas s"
  by (simp add: jogadores_view_def Let_def split: option.split)

lemma atende_nao_negativos:
  assumes "list_all contadores_nao_negativos (estatisticas s)"
    and "campos_nao_negativos lim c"
  shows "list_all contadores_nao_negativos (estatisticas (atende lim c s))"
proof (cases c)
  case (Index req)
  with assms show ?thesis
    by (simp add: atende_def campos_nao_negativos_def index_nao_negativos)
next
  case (Jogadores req)
  with assms show ?thesis
    by (simp add: atende_def jogadores_view_estatisticas)
qed

lemma run_nao_negativos:
  assumes "list_all contadores_nao_negativos (estatisticas s)"
    and "list_all (campos_nao_negativos lim) cs"
  shows "list_all contadores_nao_negativos (estatisticas (run lim cs s))"
  using assms unfolding run_def
  by (induction cs arbitrary: s) (simp_all add: atende_nao_negativos)

text \<open>
  Claim C7 as it is worded fails: a form field \<open>-5\<close> is an integer for \<open>int\<close>, and
  the view stores it. After a player is registered and such a form is posted, the
  database holds a row with \<open>gols = -5\<close>.
\<close>

theorem negative_counter_counterexample:
  "map gols (estatisticas (run 0 ex_negativo empty_db)) = [Some (- 5)]
   \<and> \<not> list_all contadores_nao_negativos (estatisticas (run 0 ex_negativo empty_db))"
  by code_simp

text \<open>
  Claim C7, amended. In every database reached from the empty one by requests whose
  form fields do not read as negative integers, no statistic row has a negative
  counter.
\<close>

theorem counters_never_negative:
  assumes "list_all (campos_nao_negativos lim) cs"
  shows "list_all contadores_nao_negativos (estatisticas (run lim cs empty_db))"
  using assms by (intro run_nao_negativos) (simp_all add: empty_db_def)

theorem counters_never_negative_witness:
  "list_all (campos_nao_negativos 0) (ex_cadastro @ [Index ex_post])
   \<and> run 0 (ex_cadastro @ [Index ex_post]) empty_db = ex_db
   \<and> list_all contadores_nao_negativos (estatisticas ex_db)"
proof -
  have h: "list_all (campos_nao_negativos 0) (ex_cadastro @ [Index ex_post])"
    by code_simp
  show ?thesis
    using counters_never_negative [OF h] h by (simp add: ex_db_def)
qed

end
